theory Spec2Isabelle
  imports Main
begin

section \<open>Python values used by the Webex bridge\<close>

text \<open>
  The program is \<^verbatim>\<open>src/main.py\<close>: a class \<^verbatim>\<open>WebexAPI\<close> with one method
  \<^verbatim>\<open>_make_request\<close>, a lazily created global handle, and sixteen tool functions.
  Strings are Python \<^verbatim>\<open>str\<close> values over the code points below 256; a float never
  occurs in the values the tools build themselves, and JSON numbers are integers here.
  A dictionary keeps insertion order, so it is an association list.
\<close>

datatype json =
    JNull
  | JBool bool
  | JInt int
  | JStr string
  | JArr "json list"
  | JObj "(string \<times> json) list"

type_synonym pydict = "(string \<times> json) list"

text \<open>\<^verbatim>\<open>d[k] = v\<close>: an existing key keeps its place, a new key goes last.\<close>

primrec dict_set :: "pydict \<Rightarrow> string \<Rightarrow> json \<Rightarrow> pydict" where
  "dict_set [] k v = [(k, v)]"
| "dict_set (p # ps) k v = (if fst p = k then (k, v) # ps else p # dict_set ps k v)"

definition dict_keys :: "pydict \<Rightarrow> string list" where
  "dict_keys d = map fst d"

text \<open>Truthiness of an \<^verbatim>\<open>Optional[str]\<close> and of an \<^verbatim>\<open>Optional[int]\<close>.\<close>

definition truthy_str :: "string option \<Rightarrow> bool" where
  "truthy_str v = (case v of None \<Rightarrow> False | Some s \<Rightarrow> s \<noteq> [])"

definition truthy_int :: "int option \<Rightarrow> bool" where
  "truthy_int v = (case v of None \<Rightarrow> False | Some n \<Rightarrow> n \<noteq> 0)"

text \<open>
  The three guarded assignments the tools are made of:
  \<^verbatim>\<open>if v: d[k] = v\<close> for a string, the same for an integer, and
  \<^verbatim>\<open>if v is not None: d[k] = v\<close> for a boolean.
\<close>

definition set_if_truthy_str :: "string \<Rightarrow> string option \<Rightarrow> pydict \<Rightarrow> pydict" where
  "set_if_truthy_str k v d =
     (case v of None \<Rightarrow> d | Some s \<Rightarrow> if s \<noteq> [] then dict_set d k (JStr s) else d)"

definition set_if_truthy_int :: "string \<Rightarrow> int option \<Rightarrow> pydict \<Rightarrow> pydict" where
  "set_if_truthy_int k v d =
     (case v of None \<Rightarrow> d | Some n \<Rightarrow> if n \<noteq> 0 then dict_set d k (JInt n) else d)"

definition set_if_not_None :: "string \<Rightarrow> bool option \<Rightarrow> pydict \<Rightarrow> pydict" where
  "set_if_not_None k v d =
     (case v of None \<Rightarrow> d | Some b \<Rightarrow> dict_set d k (JBool b))"

subsection \<open>Text: decimal numerals, \<^verbatim>\<open>upper\<close>, \<^verbatim>\<open>lstrip\<close>\<close>

definition digit_char :: "nat \<Rightarrow> char" where
  "digit_char d = ''0123456789'' ! d"

fun show_nat :: "nat \<Rightarrow> string" where
  "show_nat n = (if n < 10 then [digit_char n] else show_nat (n div 10) @ [digit_char (n mod 10)])"

declare show_nat.simps [simp del]

definition show_int :: "int \<Rightarrow> string" where
  "show_int i = (if i < 0 then CHR ''-'' # show_nat (nat (- i)) else show_nat (nat i))"

text \<open>\<^verbatim>\<open>str.upper\<close> on the letters a to z; every other character of the model is kept.\<close>

definition upper_char :: "char \<Rightarrow> char" where
  "upper_char c =
     (case map_of (zip ''abcdefghijklmnopqrstuvwxyz'' ''ABCDEFGHIJKLMNOPQRSTUVWXYZ'') c of
        Some u \<Rightarrow> u
      | None \<Rightarrow> c)"

definition upper :: "string \<Rightarrow> string" where
  "upper s = map upper_char s"

text \<open>\<^verbatim>\<open>endpoint.lstrip('/')\<close>.\<close>

definition lstrip_slash :: "string \<Rightarrow> string" where
  "lstrip_slash s = dropWhile (\<lambda>c. c = CHR ''/'') s"

subsection \<open>\<^verbatim>\<open>json.dumps(value, indent=2)\<close>\<close>

text \<open>
  The standard encoder with its defaults (\<^verbatim>\<open>ensure_ascii\<close>, item separator a comma,
  key separator a colon and a space): an empty container is written closed on the spot,
  a non-empty one puts every item on a line of its own, two spaces deeper.
\<close>

definition hex_digit :: "nat \<Rightarrow> char" where
  "hex_digit d = ''0123456789abcdef'' ! d"

definition escape_char :: "char \<Rightarrow> string" where
  "escape_char c =
     (let n = (of_char c :: nat) in
      if c = CHR 0x22 then [CHR 0x5C, CHR 0x22]
      else if c = CHR 0x5C then [CHR 0x5C, CHR 0x5C]
      else if c = CHR 0x0A then [CHR 0x5C, CHR ''n'']
      else if c = CHR 0x0D then [CHR 0x5C, CHR ''r'']
      else if c = CHR 0x09 then [CHR 0x5C, CHR ''t'']
      else if c = CHR 0x08 then [CHR 0x5C, CHR ''b'']
      else if c = CHR 0x0C then [CHR 0x5C, CHR ''f'']
      else if 32 \<le> n \<and> n \<le> 126 then [c]
      else [CHR 0x5C, CHR ''u'', CHR ''0'', CHR ''0'', hex_digit (n div 16), hex_digit (n mod 16)])"

definition encode_str :: "string \<Rightarrow> string" where
  "encode_str s = [CHR 0x22] @ concat (map escape_char s) @ [CHR 0x22]"

definition newline_indent :: "nat \<Rightarrow> string" where
  "newline_indent level = CHR 0x0A # replicate (2 * level) CHR '' ''"

fun join :: "string \<Rightarrow> string list \<Rightarrow> string" where
  "join sep [] = []"
| "join sep [x] = x"
| "join sep (x # y # ys) = x @ sep @ join sep (y # ys)"

fun dumps_at :: "nat \<Rightarrow> json \<Rightarrow> string"
  and dumps_items :: "nat \<Rightarrow> json list \<Rightarrow> string list"
  and dumps_members :: "nat \<Rightarrow> (string \<times> json) list \<Rightarrow> string list" where
  "dumps_at level JNull = ''null''"
| "dumps_at level (JBool b) = (if b then ''true'' else ''false'')"
| "dumps_at level (JInt i) = show_int i"
| "dumps_at level (JStr s) = encode_str s"
| "dumps_at level (JArr xs) =
     (if xs = [] then ''[]''
      else ''['' @ newline_indent (Suc level)
           @ join ('','' @ newline_indent (Suc level)) (dumps_items (Suc level) xs)
           @ newline_indent level @ '']'')"
| "dumps_at level (JObj ms) =
     (if ms = [] then ''{}''
      else ''{'' @ newline_indent (Suc level)
           @ join ('','' @ newline_indent (Suc level)) (dumps_members (Suc level) ms)
           @ newline_indent level @ ''}'')"
| "dumps_items level [] = []"
| "dumps_items level (x # xs) = dumps_at level x # dumps_items level xs"
| "dumps_members level [] = []"
| "dumps_members level ((k, v) # ms) =
     (encode_str k @ '': '' @ dumps_at level v) # dumps_members level ms"

definition dumps :: "json \<Rightarrow> string" where
  "dumps v = dumps_at 0 v"

section \<open>Exceptions, the network and the process state\<close>

text \<open>
  Every exception the program can meet is a subclass of \<^verbatim>\<open>Exception\<close>; the constructor
  records the class the handlers tell apart, the argument is \<^verbatim>\<open>str(e)\<close>.
  \<^verbatim>\<open>HTTPError\<close> stands for \<^verbatim>\<open>httpx.HTTPError\<close> with all its subclasses (status errors,
  timeouts, connection failures); \<^verbatim>\<open>ValueError\<close> for a \<^verbatim>\<open>ValueError\<close> that is not a
  \<^verbatim>\<open>JSONDecodeError\<close>; \<^verbatim>\<open>PyException\<close> for an instance of \<^verbatim>\<open>Exception\<close> itself,
  which is what \<^verbatim>\<open>_make_request\<close> raises.
\<close>

datatype exn =
    HTTPError string
  | JSONDecodeError string
  | ValueError string
  | TypeError string
  | OtherError string
  | PyException string

fun exn_str :: "exn \<Rightarrow> string" where
  "exn_str (HTTPError m) = m"
| "exn_str (JSONDecodeError m) = m"
| "exn_str (ValueError m) = m"
| "exn_str (TypeError m) = m"
| "exn_str (OtherError m) = m"
| "exn_str (PyException m) = m"

record WebexAPI =
  access_token :: string
  base_url :: string
  headers :: "(string \<times> string) list"

text \<open>\<^verbatim>\<open>WebexAPI.__init__\<close>.\<close>

definition WebexAPI_init :: "string \<Rightarrow> WebexAPI" where
  "WebexAPI_init token =
     \<lparr> access_token = token,
       base_url = ''https://webexapis.com/v1'',
       headers = [(''Authorization'', ''Bearer '' @ token),
                  (''Content-Type'', ''application/json'')] \<rparr>"

text \<open>
  One call of \<^verbatim>\<open>client.get\<close>, \<^verbatim>\<open>client.post\<close>, \<^verbatim>\<open>client.put\<close> or
  \<^verbatim>\<open>client.delete\<close>, with the keyword arguments the program gives it:
  \<^verbatim>\<open>params=\<close> is \<^verbatim>\<open>req_params\<close>, \<^verbatim>\<open>json=\<close> is \<^verbatim>\<open>req_json\<close>, and \<^verbatim>\<open>None\<close>
  where the call does not pass the keyword.
\<close>

datatype http_verb = GET | POST | PUT | DELETE

record http_request =
  req_verb :: http_verb
  req_url :: string
  req_headers :: "(string \<times> string) list"
  req_params :: "pydict option"
  req_json :: "pydict option"

text \<open>
  What the program reads of an \<^verbatim>\<open>httpx.Response\<close>: the status line, the body, and
  for the text of a status error the URL and the \<^verbatim>\<open>Location\<close> header.
\<close>

record response =
  status_code :: nat
  reason_phrase :: string
  location :: "string option"
  resp_url :: string
  content :: string

datatype outcome = Responds response | Raises exn

text \<open>
  The surroundings of the program: \<^verbatim>\<open>json.loads\<close> (\<open>Inl m\<close> is a
  \<^verbatim>\<open>JSONDecodeError\<close> with text \<open>m\<close>), \<^verbatim>\<open>repr\<close> of a list or dictionary, and the
  platform behind the HTTP client, which answers a request knowing the requests made
  before it. The theorems hold for every such surroundings.
\<close>

record sys =
  json_loads :: "string \<Rightarrow> string + json"
  py_repr :: "json \<Rightarrow> string"
  transport :: "http_request list \<Rightarrow> http_request \<Rightarrow> outcome"

text \<open>
  The state of the process: the global \<^verbatim>\<open>webex_api\<close>, the environment variable
  that \<^verbatim>\<open>os.getenv\<close> reads, and the requests made so far, oldest first.
\<close>

record world =
  webex_api :: "WebexAPI option"
  env_WEBEX_ACCESS_TOKEN :: "string option"
  sent :: "http_request list"

type_synonym 'a io = "world \<Rightarrow> (exn + 'a) \<times> world"

definition io_return :: "'a \<Rightarrow> 'a io" where
  "io_return a w = (Inr a, w)"

definition io_raise :: "exn \<Rightarrow> 'a io" where
  "io_raise e w = (Inl e, w)"

definition io_bind :: "'a io \<Rightarrow> ('a \<Rightarrow> 'b io) \<Rightarrow> 'b io" where
  "io_bind m f w = (case m w of (Inl e, w') \<Rightarrow> (Inl e, w') | (Inr a, w') \<Rightarrow> f a w')"

text \<open>\<^verbatim>\<open>try: m  except Exception as e: h(e)\<close>.\<close>

definition io_catch :: "'a io \<Rightarrow> (exn \<Rightarrow> 'a io) \<Rightarrow> 'a io" where
  "io_catch m h w = (case m w of (Inl e, w') \<Rightarrow> h e w' | (Inr a, w') \<Rightarrow> (Inr a, w'))"

text \<open>\<^verbatim>\<open>try: m  except json.JSONDecodeError: return a\<close>.\<close>

definition io_catch_JSONDecodeError :: "'a io \<Rightarrow> 'a \<Rightarrow> 'a io" where
  "io_catch_JSONDecodeError m a =
     io_catch m (\<lambda>e. case e of JSONDecodeError _ \<Rightarrow> io_return a | _ \<Rightarrow> io_raise e)"

definition io_of :: "exn + 'a \<Rightarrow> 'a io" where
  "io_of r w = (r, w)"

section \<open>The API client\<close>

text \<open>
  \<^verbatim>\<open>response.raise_for_status()\<close> of httpx: a status outside 200..299 raises an
  \<^verbatim>\<open>HTTPStatusError\<close> whose text names the status code, the reason phrase and the URL.
  The wording is the library's and its last line has changed between releases; the
  statements below rely on the status code and the reason phrase being part of it.
\<close>

definition error_type :: "nat \<Rightarrow> string" where
  "error_type status =
     (let status_class = status div 100 in
      if status_class = 1 then ''Informational response''
      else if status_class = 3 then ''Redirect response''
      else if status_class = 4 then ''Client error''
      else if status_class = 5 then ''Server error''
      else ''Invalid status code'')"

definition has_redirect_location :: "response \<Rightarrow> bool" where
  "has_redirect_location r =
     (status_code r \<in> set [301, 302, 303, 307, 308] \<and> location r \<noteq> None)"

definition redirect_line :: "response \<Rightarrow> string" where
  "redirect_line r =
     (case location r of
        Some l \<Rightarrow>
          if has_redirect_location r
          then ''Redirect location: '' @ [CHR 0x27] @ l @ [CHR 0x27, CHR 0x0A]
          else []
      | None \<Rightarrow> [])"

definition status_error_message :: "response \<Rightarrow> string" where
  "status_error_message r =
     error_type (status_code r) @ '' '' @ [CHR 0x27]
     @ show_nat (status_code r) @ '' '' @ reason_phrase r @ [CHR 0x27]
     @ '' for url '' @ [CHR 0x27] @ resp_url r @ [CHR 0x27, CHR 0x0A]
     @ redirect_line r
     @ ''For more information check: https://developer.mozilla.org/en-US/docs/Web/HTTP/Status/''
     @ show_nat (status_code r)"

definition raise_for_status :: "response \<Rightarrow> exn + unit" where
  "raise_for_status r =
     (if 200 \<le> status_code r \<and> status_code r \<le> 299 then Inr ()
      else Inl (HTTPError (status_error_message r)))"

text \<open>\<^verbatim>\<open>response.json()\<close>: the body handed to \<^verbatim>\<open>json.loads\<close>.\<close>

definition response_json :: "sys \<Rightarrow> response \<Rightarrow> exn + json" where
  "response_json sys r =
     (case json_loads sys (content r) of Inl m \<Rightarrow> Inl (JSONDecodeError m) | Inr v \<Rightarrow> Inr v)"

text \<open>
  The request leaves the process, whatever comes back: it is appended to \<open>sent\<close>
  before the outcome is looked at.
\<close>

definition send :: "sys \<Rightarrow> http_request \<Rightarrow> response io" where
  "send sys req w =
     (case transport sys (sent w) req of
        Responds r \<Rightarrow> (Inr r, w\<lparr>sent := sent w @ [req]\<rparr>)
      | Raises e \<Rightarrow> (Inl e, w\<lparr>sent := sent w @ [req]\<rparr>))"

text \<open>
  The \<^verbatim>\<open>if\<close>/\<^verbatim>\<open>elif\<close> chain of \<^verbatim>\<open>_make_request\<close> (lines 47 to 56): which client
  method is called and with which keywords. \<open>Inl\<close> is the final \<^verbatim>\<open>else: raise ValueError\<close>.
\<close>

definition select_call ::
  "WebexAPI \<Rightarrow> string \<Rightarrow> string \<Rightarrow> pydict option \<Rightarrow> pydict option \<Rightarrow> exn + http_request" where
  "select_call self method url params data =
     (if upper method = ''GET'' then
        Inr \<lparr> req_verb = GET, req_url = url, req_headers = headers self,
              req_params = params, req_json = None \<rparr>
      else if upper method = ''POST'' then
        Inr \<lparr> req_verb = POST, req_url = url, req_headers = headers self,
              req_params = None, req_json = data \<rparr>
      else if upper method = ''PUT'' then
        Inr \<lparr> req_verb = PUT, req_url = url, req_headers = headers self,
              req_params = None, req_json = data \<rparr>
      else if upper method = ''DELETE'' then
        Inr \<lparr> req_verb = DELETE, req_url = url, req_headers = headers self,
              req_params = None, req_json = None \<rparr>
      else Inl (ValueError (''Unsupported HTTP method: '' @ method)))"

text \<open>Lines 58 and 59: what is made of the response.\<close>

definition read_response :: "sys \<Rightarrow> response \<Rightarrow> exn + json" where
  "read_response sys r =
     (case raise_for_status r of
        Inl e \<Rightarrow> Inl e
      | Inr _ \<Rightarrow> if content r \<noteq> [] then response_json sys r else Inr (JObj []))"

text \<open>The body of the \<^verbatim>\<open>try\<close> statement.\<close>

definition try_request ::
  "sys \<Rightarrow> WebexAPI \<Rightarrow> string \<Rightarrow> string \<Rightarrow> pydict option \<Rightarrow> pydict option \<Rightarrow> json io" where
  "try_request sys self method url params data =
     io_bind (io_of (select_call self method url params data)) (\<lambda>req.
     io_bind (send sys req) (\<lambda>r.
     io_of (read_response sys r)))"

text \<open>The two handlers: \<^verbatim>\<open>except httpx.HTTPError\<close>, then \<^verbatim>\<open>except Exception\<close>.\<close>

definition normalize :: "exn \<Rightarrow> exn" where
  "normalize e =
     (case e of
        HTTPError m \<Rightarrow> PyException (''API request failed: '' @ exn_str e)
      | _ \<Rightarrow> PyException (''Request failed: '' @ exn_str e))"

definition make_request ::
  "sys \<Rightarrow> WebexAPI \<Rightarrow> string \<Rightarrow> string \<Rightarrow> pydict option \<Rightarrow> pydict option \<Rightarrow> json io" where
  "make_request sys self method endpoint params data =
     (let url = base_url self @ ''/'' @ lstrip_slash endpoint in
      io_catch (try_request sys self method url params data) (\<lambda>e. io_raise (normalize e)))"

text \<open>\<^verbatim>\<open>get_webex_api\<close>: the global handle, created from the environment on first use.\<close>

definition get_webex_api :: "WebexAPI io" where
  "get_webex_api w =
     (case webex_api w of
        Some api \<Rightarrow> (Inr api, w)
      | None \<Rightarrow>
          (case env_WEBEX_ACCESS_TOKEN w of
             None \<Rightarrow> (Inl (ValueError ''WEBEX_ACCESS_TOKEN environment variable is required''), w)
           | Some token \<Rightarrow>
               if token = []
               then (Inl (ValueError ''WEBEX_ACCESS_TOKEN environment variable is required''), w)
               else (Inr (WebexAPI_init token), w\<lparr>webex_api := Some (WebexAPI_init token)\<rparr>)))"

section \<open>The tools\<close>

text \<open>
  Each tool is written as in the source: the handle, the dictionary of query parameters
  or the request body, the request, the text returned. The dictionary a tool builds is a
  definition of its own (\<open>_params\<close> for \<^verbatim>\<open>params\<close>, \<open>_data\<close> for \<^verbatim>\<open>data\<close>), so
  that a statement can speak of what is passed to \<^verbatim>\<open>_make_request\<close>. Where the tool
  can return a text before it makes the request, the definition gives that text as
  \<open>Inl\<close>.
\<close>

subsection \<open>Meetings\<close>

definition list_meetings_params ::
  "string option \<Rightarrow> string option \<Rightarrow> string option \<Rightarrow> bool option \<Rightarrow> string option
   \<Rightarrow> string option \<Rightarrow> int option \<Rightarrow> pydict" where
  "list_meetings_params meetingType state scheduledType current from_date to_date max' =
     (let params = [];
          params = set_if_truthy_str ''meetingType'' meetingType params;
          params = set_if_truthy_str ''state'' state params;
          params = set_if_truthy_str ''scheduledType'' scheduledType params;
          params = set_if_not_None ''current'' current params;
          params = set_if_truthy_str ''from'' from_date params;
          params = set_if_truthy_str ''to'' to_date params;
          params = set_if_truthy_int ''max'' max' params
      in params)"

definition list_meetings ::
  "sys \<Rightarrow> string option \<Rightarrow> string option \<Rightarrow> string option \<Rightarrow> bool option \<Rightarrow> string option
   \<Rightarrow> string option \<Rightarrow> int option \<Rightarrow> string io" where
  "list_meetings sys meetingType state scheduledType current from_date to_date max' =
     io_bind get_webex_api (\<lambda>webex.
     io_bind (make_request sys webex ''GET'' ''/meetings''
                (Some (list_meetings_params meetingType state scheduledType current
                         from_date to_date max')) None) (\<lambda>result.
     io_return (dumps result)))"

definition get_meeting_details_params :: "bool option \<Rightarrow> pydict" where
  "get_meeting_details_params current = set_if_not_None ''current'' current []"

definition get_meeting_details :: "sys \<Rightarrow> string \<Rightarrow> bool option \<Rightarrow> string io" where
  "get_meeting_details sys meeting_id current =
     io_bind get_webex_api (\<lambda>webex.
     io_bind (make_request sys webex ''GET'' (''/meetings/'' @ meeting_id)
                (Some (get_meeting_details_params current)) None) (\<lambda>result.
     io_return (dumps result)))"

definition get_meeting_transcript_params :: "string option \<Rightarrow> pydict" where
  "get_meeting_transcript_params format = set_if_truthy_str ''format'' format []"

definition get_meeting_transcript :: "sys \<Rightarrow> string \<Rightarrow> string option \<Rightarrow> string io" where
  "get_meeting_transcript sys meeting_id format =
     io_bind get_webex_api (\<lambda>webex.
     io_catch
       (io_bind (make_request sys webex ''GET'' (''/meetings/'' @ meeting_id @ ''/transcripts'')
                   (Some (get_meeting_transcript_params format)) None) (\<lambda>result.
        io_return (dumps result)))
       (\<lambda>e. io_return (''Transcript not available: '' @ exn_str e)))"

definition get_recording :: "sys \<Rightarrow> string \<Rightarrow> string io" where
  "get_recording sys recording_id =
     io_bind get_webex_api (\<lambda>webex.
     io_bind (make_request sys webex ''GET'' (''/recordings/'' @ recording_id) None None) (\<lambda>result.
     io_return (dumps result)))"

definition list_recordings_params ::
  "string option \<Rightarrow> string option \<Rightarrow> string option \<Rightarrow> int option \<Rightarrow> pydict" where
  "list_recordings_params meeting_id from_date to_date max' =
     (let params = [];
          params = set_if_truthy_str ''meetingId'' meeting_id params;
          params = set_if_truthy_str ''from'' from_date params;
          params = set_if_truthy_str ''to'' to_date params;
          params = set_if_truthy_int ''max'' max' params
      in params)"

definition list_recordings ::
  "sys \<Rightarrow> string option \<Rightarrow> string option \<Rightarrow> string option \<Rightarrow> int option \<Rightarrow> string io" where
  "list_recordings sys meeting_id from_date to_date max' =
     io_bind get_webex_api (\<lambda>webex.
     io_bind (make_request sys webex ''GET'' ''/recordings''
                (Some (list_recordings_params meeting_id from_date to_date max')) None) (\<lambda>result.
     io_return (dumps result)))"

definition create_meeting_data ::
  "sys \<Rightarrow> string \<Rightarrow> string option \<Rightarrow> string option \<Rightarrow> string option \<Rightarrow> string option
   \<Rightarrow> string option \<Rightarrow> bool option \<Rightarrow> bool option \<Rightarrow> string option \<Rightarrow> string + pydict" where
  "create_meeting_data sys title agenda password start end' timezone
       enabledAutoRecordMeeting allowAnyUserToBeCoHost invitees =
     (let data = [(''title'', JStr title)];
          data = set_if_truthy_str ''agenda'' agenda data;
          data = set_if_truthy_str ''password'' password data;
          data = set_if_truthy_str ''start'' start data;
          data = set_if_truthy_str ''end'' end' data;
          data = set_if_truthy_str ''timezone'' timezone data;
          data = set_if_not_None ''enabledAutoRecordMeeting'' enabledAutoRecordMeeting data;
          data = set_if_not_None ''allowAnyUserToBeCoHost'' allowAnyUserToBeCoHost data
      in case invitees of
           None \<Rightarrow> Inr data
         | Some s \<Rightarrow>
             if s = [] then Inr data
             else (case json_loads sys s of
                     Inl _ \<Rightarrow> Inl ''Error: Invalid JSON format for invitees''
                   | Inr v \<Rightarrow> Inr (dict_set data ''invitees'' v)))"

definition create_meeting ::
  "sys \<Rightarrow> string \<Rightarrow> string option \<Rightarrow> string option \<Rightarrow> string option \<Rightarrow> string option
   \<Rightarrow> string option \<Rightarrow> bool option \<Rightarrow> bool option \<Rightarrow> string option \<Rightarrow> string io" where
  "create_meeting sys title agenda password start end' timezone
       enabledAutoRecordMeeting allowAnyUserToBeCoHost invitees =
     io_bind get_webex_api (\<lambda>webex.
     case create_meeting_data sys title agenda password start end' timezone
            enabledAutoRecordMeeting allowAnyUserToBeCoHost invitees of
       Inl err \<Rightarrow> io_return err
     | Inr data \<Rightarrow>
         io_bind (make_request sys webex ''POST'' ''/meetings'' None (Some data)) (\<lambda>result.
         io_return (dumps result)))"

definition update_meeting_data ::
  "string option \<Rightarrow> string option \<Rightarrow> string option \<Rightarrow> string option \<Rightarrow> string option
   \<Rightarrow> string option \<Rightarrow> pydict" where
  "update_meeting_data title agenda password start end' timezone =
     (let data = [];
          data = set_if_truthy_str ''title'' title data;
          data = set_if_truthy_str ''agenda'' agenda data;
          data = set_if_truthy_str ''password'' password data;
          data = set_if_truthy_str ''start'' start data;
          data = set_if_truthy_str ''end'' end' data;
          data = set_if_truthy_str ''timezone'' timezone data
      in data)"

definition update_meeting ::
  "sys \<Rightarrow> string \<Rightarrow> string option \<Rightarrow> string option \<Rightarrow> string option \<Rightarrow> string option
   \<Rightarrow> string option \<Rightarrow> string option \<Rightarrow> string io" where
  "update_meeting sys meeting_id title agenda password start end' timezone =
     io_bind get_webex_api (\<lambda>webex.
     io_bind (make_request sys webex ''PUT'' (''/meetings/'' @ meeting_id) None
                (Some (update_meeting_data title agenda password start end' timezone))) (\<lambda>result.
     io_return (dumps result)))"

definition delete_meeting_params :: "bool option \<Rightarrow> pydict" where
  "delete_meeting_params sendEmail = set_if_not_None ''sendEmail'' sendEmail []"

definition delete_meeting :: "sys \<Rightarrow> string \<Rightarrow> bool option \<Rightarrow> string io" where
  "delete_meeting sys meeting_id sendEmail =
     io_bind get_webex_api (\<lambda>webex.
     io_bind (make_request sys webex ''DELETE'' (''/meetings/'' @ meeting_id)
                (Some (delete_meeting_params sendEmail)) None) (\<lambda>_.
     io_return (''Meeting '' @ meeting_id @ '' deleted successfully'')))"

text \<open>\<^verbatim>\<open>json.loads\<close> inside a \<^verbatim>\<open>try\<close>: the failure is a \<^verbatim>\<open>JSONDecodeError\<close>.\<close>

definition io_loads :: "sys \<Rightarrow> string \<Rightarrow> json io" where
  "io_loads sys s =
     io_of (case json_loads sys s of Inl m \<Rightarrow> Inl (JSONDecodeError m) | Inr v \<Rightarrow> Inr v)"

definition add_participants :: "sys \<Rightarrow> string \<Rightarrow> string \<Rightarrow> string io" where
  "add_participants sys meeting_id participants =
     io_bind get_webex_api (\<lambda>webex.
     io_catch_JSONDecodeError
       (io_bind (io_loads sys participants) (\<lambda>participants_data.
        io_bind (make_request sys webex ''POST'' (''/meetings/'' @ meeting_id @ ''/invitees'') None
                   (Some [(''invitees'', participants_data)])) (\<lambda>result.
        io_return (dumps result))))
       ''Error: Invalid JSON format for participants'')"

text \<open>
  \<^verbatim>\<open>for participant_id in ids\<close>: a list gives its elements, a dictionary its keys, a
  string its characters; a number, a boolean or \<^verbatim>\<open>None\<close> is not iterable.
\<close>

definition py_iter :: "json \<Rightarrow> exn + json list" where
  "py_iter v =
     (case v of
        JArr xs \<Rightarrow> Inr xs
      | JObj d \<Rightarrow> Inr (map (\<lambda>p. JStr (fst p)) d)
      | JStr s \<Rightarrow> Inr (map (\<lambda>c. JStr [c]) s)
      | JInt _ \<Rightarrow> Inl (TypeError ([CHR 0x27] @ ''int'' @ [CHR 0x27] @ '' object is not iterable''))
      | JBool _ \<Rightarrow> Inl (TypeError ([CHR 0x27] @ ''bool'' @ [CHR 0x27] @ '' object is not iterable''))
      | JNull \<Rightarrow> Inl (TypeError ([CHR 0x27] @ ''NoneType'' @ [CHR 0x27] @ '' object is not iterable'')))"

text \<open>A value inside an f-string: \<^verbatim>\<open>str(v)\<close>.\<close>

definition format_value :: "sys \<Rightarrow> json \<Rightarrow> string" where
  "format_value sys v =
     (case v of
        JStr s \<Rightarrow> s
      | JInt i \<Rightarrow> show_int i
      | JBool b \<Rightarrow> (if b then ''True'' else ''False'')
      | JNull \<Rightarrow> ''None''
      | _ \<Rightarrow> py_repr sys v)"

definition invitee_endpoint :: "sys \<Rightarrow> string \<Rightarrow> json \<Rightarrow> string" where
  "invitee_endpoint sys meeting_id participant_id =
     ''/meetings/'' @ meeting_id @ ''/invitees/'' @ format_value sys participant_id"

fun remove_loop :: "sys \<Rightarrow> WebexAPI \<Rightarrow> string \<Rightarrow> json list \<Rightarrow> unit io" where
  "remove_loop sys webex meeting_id [] w = (Inr (), w)"
| "remove_loop sys webex meeting_id (participant_id # ids) w =
     (case make_request sys webex ''DELETE'' (invitee_endpoint sys meeting_id participant_id)
             None None w of
        (Inl e, w') \<Rightarrow> (Inl e, w')
      | (Inr _, w') \<Rightarrow> remove_loop sys webex meeting_id ids w')"

definition remove_participants :: "sys \<Rightarrow> string \<Rightarrow> string \<Rightarrow> string io" where
  "remove_participants sys meeting_id participant_ids =
     io_bind get_webex_api (\<lambda>webex.
     io_catch_JSONDecodeError
       (io_bind (io_loads sys participant_ids) (\<lambda>ids.
        io_bind (io_of (py_iter ids)) (\<lambda>elements.
        io_bind (remove_loop sys webex meeting_id elements) (\<lambda>_.
        io_return ''Participants removed successfully''))))
       ''Error: Invalid JSON format for participant IDs'')"

definition list_participants_params ::
  "string option \<Rightarrow> string option \<Rightarrow> int option \<Rightarrow> pydict" where
  "list_participants_params joinedBefore joinedAfter max' =
     (let params = [];
          params = set_if_truthy_str ''joinedBefore'' joinedBefore params;
          params = set_if_truthy_str ''joinedAfter'' joinedAfter params;
          params = set_if_truthy_int ''max'' max' params
      in params)"

definition list_participants ::
  "sys \<Rightarrow> string \<Rightarrow> string option \<Rightarrow> string option \<Rightarrow> int option \<Rightarrow> string io" where
  "list_participants sys meeting_id joinedBefore joinedAfter max' =
     io_bind get_webex_api (\<lambda>webex.
     io_bind (make_request sys webex ''GET'' (''/meetings/'' @ meeting_id @ ''/participants'')
                (Some (list_participants_params joinedBefore joinedAfter max')) None) (\<lambda>result.
     io_return (dumps result)))"

subsection \<open>Messaging\<close>

definition list_spaces_params ::
  "string option \<Rightarrow> string option \<Rightarrow> string option \<Rightarrow> int option \<Rightarrow> pydict" where
  "list_spaces_params teamId type' sortBy max' =
     (let params = [];
          params = set_if_truthy_str ''teamId'' teamId params;
          params = set_if_truthy_str ''type'' type' params;
          params = set_if_truthy_str ''sortBy'' sortBy params;
          params = set_if_truthy_int ''max'' max' params
      in params)"

definition list_spaces ::
  "sys \<Rightarrow> string option \<Rightarrow> string option \<Rightarrow> string option \<Rightarrow> int option \<Rightarrow> string io" where
  "list_spaces sys teamId type' sortBy max' =
     io_bind get_webex_api (\<lambda>webex.
     io_bind (make_request sys webex ''GET'' ''/rooms''
                (Some (list_spaces_params teamId type' sortBy max')) None) (\<lambda>result.
     io_return (dumps result)))"

definition get_messages_params ::
  "string \<Rightarrow> string option \<Rightarrow> string option \<Rightarrow> string option \<Rightarrow> int option \<Rightarrow> pydict" where
  "get_messages_params roomId mentionedPeople before beforeMessage max' =
     (let params = [(''roomId'', JStr roomId)];
          params = set_if_truthy_str ''mentionedPeople'' mentionedPeople params;
          params = set_if_truthy_str ''before'' before params;
          params = set_if_truthy_str ''beforeMessage'' beforeMessage params;
          params = set_if_truthy_int ''max'' max' params
      in params)"

definition get_messages ::
  "sys \<Rightarrow> string \<Rightarrow> string option \<Rightarrow> string option \<Rightarrow> string option \<Rightarrow> int option \<Rightarrow> string io" where
  "get_messages sys roomId mentionedPeople before beforeMessage max' =
     io_bind get_webex_api (\<lambda>webex.
     io_bind (make_request sys webex ''GET'' ''/messages''
                (Some (get_messages_params roomId mentionedPeople before beforeMessage max'))
                None) (\<lambda>result.
     io_return (dumps result)))"

definition send_message_data ::
  "sys \<Rightarrow> string option \<Rightarrow> string option \<Rightarrow> string option \<Rightarrow> string option \<Rightarrow> string option
   \<Rightarrow> string option \<Rightarrow> string option \<Rightarrow> string + pydict" where
  "send_message_data sys roomId toPersonId toPersonEmail text' markdown html files =
     (if \<not> (truthy_str roomId \<or> truthy_str toPersonId \<or> truthy_str toPersonEmail)
      then Inl ''Error: Must specify roomId, toPersonId, or toPersonEmail''
      else if \<not> (truthy_str text' \<or> truthy_str markdown \<or> truthy_str html)
      then Inl ''Error: Must specify text, markdown, or html content''
      else
        (let data = [];
             data = set_if_truthy_str ''roomId'' roomId data;
             data = set_if_truthy_str ''toPersonId'' toPersonId data;
             data = set_if_truthy_str ''toPersonEmail'' toPersonEmail data;
             data = set_if_truthy_str ''text'' text' data;
             data = set_if_truthy_str ''markdown'' markdown data;
             data = set_if_truthy_str ''html'' html data
         in case files of
              None \<Rightarrow> Inr data
            | Some s \<Rightarrow>
                if s = [] then Inr data
                else (case json_loads sys s of
                        Inl _ \<Rightarrow> Inl ''Error: Invalid JSON format for files''
                      | Inr v \<Rightarrow> Inr (dict_set data ''files'' v))))"

definition send_message ::
  "sys \<Rightarrow> string option \<Rightarrow> string option \<Rightarrow> string option \<Rightarrow> string option \<Rightarrow> string option
   \<Rightarrow> string option \<Rightarrow> string option \<Rightarrow> string io" where
  "send_message sys roomId toPersonId toPersonEmail text' markdown html files =
     io_bind get_webex_api (\<lambda>webex.
     case send_message_data sys roomId toPersonId toPersonEmail text' markdown html files of
       Inl err \<Rightarrow> io_return err
     | Inr data \<Rightarrow>
         io_bind (make_request sys webex ''POST'' ''/messages'' None (Some data)) (\<lambda>result.
         io_return (dumps result)))"

definition create_space_data ::
  "string \<Rightarrow> string option \<Rightarrow> string option \<Rightarrow> bool option \<Rightarrow> bool option \<Rightarrow> string option
   \<Rightarrow> pydict" where
  "create_space_data title teamId classificationId isLocked isPublic description =
     (let data = [(''title'', JStr title)];
          data = set_if_truthy_str ''teamId'' teamId data;
          data = set_if_truthy_str ''classificationId'' classificationId data;
          data = set_if_not_None ''isLocked'' isLocked data;
          data = set_if_not_None ''isPublic'' isPublic data;
          data = set_if_truthy_str ''description'' description data
      in data)"

definition create_space ::
  "sys \<Rightarrow> string \<Rightarrow> string option \<Rightarrow> string option \<Rightarrow> bool option \<Rightarrow> bool option
   \<Rightarrow> string option \<Rightarrow> string io" where
  "create_space sys title teamId classificationId isLocked isPublic description =
     io_bind get_webex_api (\<lambda>webex.
     io_bind (make_request sys webex ''POST'' ''/rooms'' None
                (Some (create_space_data title teamId classificationId isLocked isPublic
                         description))) (\<lambda>result.
     io_return (dumps result)))"

definition add_member_to_space_data ::
  "string \<Rightarrow> string option \<Rightarrow> string option \<Rightarrow> bool option \<Rightarrow> string + pydict" where
  "add_member_to_space_data roomId personId personEmail isModerator =
     (if \<not> (truthy_str personId \<or> truthy_str personEmail)
      then Inl ''Error: Must specify personId or personEmail''
      else
        (let data = [(''roomId'', JStr roomId)];
             data = set_if_truthy_str ''personId'' personId data;
             data = set_if_truthy_str ''personEmail'' personEmail data;
             data = set_if_not_None ''isModerator'' isModerator data
         in Inr data))"

definition add_member_to_space ::
  "sys \<Rightarrow> string \<Rightarrow> string option \<Rightarrow> string option \<Rightarrow> bool option \<Rightarrow> string io" where
  "add_member_to_space sys roomId personId personEmail isModerator =
     io_bind get_webex_api (\<lambda>webex.
     case add_member_to_space_data roomId personId personEmail isModerator of
       Inl err \<Rightarrow> io_return err
     | Inr data \<Rightarrow>
         io_bind (make_request sys webex ''POST'' ''/memberships'' None (Some data)) (\<lambda>result.
         io_return (dumps result)))"

section \<open>Notions the statements use\<close>

text \<open>
  What one call of \<^verbatim>\<open>_make_request\<close> returns or raises once its request \<open>req\<close> is
  chosen and \<open>h\<close> are the requests made before: the response read, or the failure
  as the handlers re-raise it.
\<close>

definition call_result :: "sys \<Rightarrow> http_request list \<Rightarrow> http_request \<Rightarrow> exn + json" where
  "call_result sys h req =
     (case transport sys h req of
        Responds r \<Rightarrow> (case read_response sys r of Inl e \<Rightarrow> Inl (normalize e) | Inr v \<Rightarrow> Inr v)
      | Raises e \<Rightarrow> Inl (normalize e))"

definition accepted :: "sys \<Rightarrow> http_request list \<Rightarrow> http_request \<Rightarrow> bool" where
  "accepted sys h req = (case call_result sys h req of Inl _ \<Rightarrow> False | Inr _ \<Rightarrow> True)"

text \<open>The request \<^verbatim>\<open>remove_participants\<close> makes for one element of its list.\<close>

definition removal_request :: "sys \<Rightarrow> WebexAPI \<Rightarrow> string \<Rightarrow> json \<Rightarrow> http_request" where
  "removal_request sys api meeting_id participant_id =
     \<lparr> req_verb = DELETE,
       req_url = base_url api @ ''/meetings/'' @ meeting_id @ ''/invitees/''
                 @ format_value sys participant_id,
       req_headers = headers api, req_params = None, req_json = None \<rparr>"

text \<open>\<^verbatim>\<open>k not in d\<close>.\<close>

definition omitted :: "string \<Rightarrow> pydict \<Rightarrow> bool" where
  "omitted k d = (k \<notin> set (dict_keys d))"

section \<open>Example surroundings\<close>

text \<open>
  Concrete surroundings for the closed examples below: a platform that gives every
  request the same answer, one that refuses the second request, a stand-in for
  \<^verbatim>\<open>json.loads\<close> that knows one text and rejects every other one with the message
  Python gives for the empty string, and a process that has its token in the
  environment and has made no request yet.
\<close>

definition answer :: "nat \<Rightarrow> string \<Rightarrow> string \<Rightarrow> http_request \<Rightarrow> response" where
  "answer status reason body req =
     \<lparr> status_code = status, reason_phrase = reason, location = None,
       resp_url = req_url req, content = body \<rparr>"

definition always :: "nat \<Rightarrow> string \<Rightarrow> string \<Rightarrow> http_request list \<Rightarrow> http_request \<Rightarrow> outcome" where
  "always status reason body h req = Responds (answer status reason body req)"

definition second_refused :: "http_request list \<Rightarrow> http_request \<Rightarrow> outcome" where
  "second_refused h req =
     (if length h = 1 then Responds (answer 404 ''Not Found'' [] req)
      else Responds (answer 204 ''No Content'' [] req))"

definition example_loads :: "string \<Rightarrow> string + json" where
  "example_loads s =
     (if s = ''[\"p1\", \"p2\", \"p3\"]'' then Inr (JArr [JStr ''p1'', JStr ''p2'', JStr ''p3''])
      else Inl ''Expecting value: line 1 column 1 (char 0)'')"

definition example_sys :: "(http_request list \<Rightarrow> http_request \<Rightarrow> outcome) \<Rightarrow> sys" where
  "example_sys t = \<lparr> json_loads = example_loads, py_repr = (\<lambda>v. []), transport = t \<rparr>"

definition example_world :: world where
  "example_world = \<lparr> webex_api = None, env_WEBEX_ACCESS_TOKEN = Some ''token'', sent = [] \<rparr>"

definition example_api :: WebexAPI where
  "example_api = WebexAPI_init ''token''"

section \<open>Facts about the client\<close>

lemma upper_verbs:
  "upper ''DELETE'' = ''DELETE''" "upper ''GET'' = ''GET''"
  "upper ''POST'' = ''POST''" "upper ''PUT'' = ''PUT''"
  by (simp_all add: upper_def upper_char_def)

text \<open>
  One call of \<^verbatim>\<open>_make_request\<close>, read off its definition: either no client method is
  selected and nothing is sent, or exactly one request is sent and its outcome decides.
\<close>

lemma make_request_eq:
  "make_request sys self method endpoint params data w =
     (case select_call self method (base_url self @ ''/'' @ lstrip_slash endpoint) params data of
        Inl e \<Rightarrow> (Inl (normalize e), w)
      | Inr req \<Rightarrow> (call_result sys (sent w) req, w\<lparr>sent := sent w @ [req]\<rparr>))"
  by (simp add: make_request_def try_request_def io_catch_def io_bind_def io_of_def send_def
      io_raise_def call_result_def split: sum.splits outcome.splits)

lemma get_webex_api_handle:
  "fst (get_webex_api w) = Inr api \<Longrightarrow> get_webex_api w = (Inr api, w\<lparr>webex_api := Some api\<rparr>)"
  by (auto simp: get_webex_api_def split: option.splits if_splits)

lemma tool_handle:
  "fst (get_webex_api w) = Inr api \<Longrightarrow> io_bind get_webex_api f w = f api (w\<lparr>webex_api := Some api\<rparr>)"
  by (simp add: io_bind_def get_webex_api_handle)

lemma example_handle:
  "get_webex_api example_world = (Inr example_api, example_world\<lparr>webex_api := Some example_api\<rparr>)"
  by (simp add: get_webex_api_def example_world_def example_api_def)

lemmas example_defs =
  example_sys_def example_world_def example_api_def always_def answer_def WebexAPI_init_def
  second_refused_def example_loads_def

lemmas io_defs = io_bind_def io_return_def io_raise_def io_catch_def io_of_def
  io_catch_JSONDecodeError_def io_loads_def

lemma status_message_embeds:
  "\<exists>pre post. status_error_message r = pre @ show_nat (status_code r) @ '' '' @ reason_phrase r @ post"
proof -
  have "status_error_message r =
      (error_type (status_code r) @ '' '' @ [CHR 0x27])
      @ show_nat (status_code r) @ '' '' @ reason_phrase r
      @ ([CHR 0x27] @ '' for url '' @ [CHR 0x27] @ resp_url r @ [CHR 0x27, CHR 0x0A]
         @ redirect_line r
         @ ''For more information check: https://developer.mozilla.org/en-US/docs/Web/HTTP/Status/''
         @ show_nat (status_code r))"
    by (simp add: status_error_message_def)
  then show ?thesis by blast
qed

section \<open>The claims\<close>

text \<open>
  C1 says that a DELETE carries its query parameters on the wire. The code does not do
  that: the \<^verbatim>\<open>DELETE\<close> branch calls \<^verbatim>\<open>client.delete(url, headers=self.headers)\<close> and
  leaves \<^verbatim>\<open>params\<close> out, although \<^verbatim>\<open>delete_meeting\<close> builds \<^verbatim>\<open>{"sendEmail": True}\<close>
  and passes it. The run below is \<^verbatim>\<open>delete_meeting("abc123", sendEmail=True)\<close> against a
  platform that answers 204: the dictionary handed to the client holds \<^verbatim>\<open>sendEmail\<close>,
  the one request sent has no query parameters.
\<close>

theorem delete_meeting_drops_sendEmail:
  "delete_meeting_params (Some True) = [(''sendEmail'', JBool True)] \<and>
   delete_meeting (example_sys (always 204 ''No Content'' [])) ''abc123'' (Some True) example_world =
     (Inr ''Meeting abc123 deleted successfully'',
      \<lparr> webex_api = Some example_api, env_WEBEX_ACCESS_TOKEN = Some ''token'',
        sent = [\<lparr> req_verb = DELETE, req_url = ''https://webexapis.com/v1/meetings/abc123'',
                 req_headers = [(''Authorization'', ''Bearer token''),
                                (''Content-Type'', ''application/json'')],
                 req_params = None, req_json = None \<rparr>] \<rparr>)"
  by (simp add: delete_meeting_def delete_meeting_params_def set_if_not_None_def io_defs
      get_webex_api_def make_request_eq select_call_def upper_verbs lstrip_slash_def
      call_result_def read_response_def raise_for_status_def example_defs)

text \<open>
  C2: a call of \<^verbatim>\<open>_make_request\<close> whose request is answered with a status from 400 to
  599 raises; what it raises is the exception of the \<^verbatim>\<open>except httpx.HTTPError\<close> handler,
  whose text is \<^verbatim>\<open>API request failed: \<close> followed by the text of the status error, and
  that text holds the status code and the reason phrase. No value is returned, and the
  one request stays sent.
\<close>

theorem http_error_status_raises:
  assumes "select_call self method (base_url self @ ''/'' @ lstrip_slash endpoint) params data = Inr req"
    and "transport sys (sent w) req = Responds r"
    and "400 \<le> status_code r" and "status_code r \<le> 599"
  shows "make_request sys self method endpoint params data w =
           (Inl (PyException (''API request failed: '' @ status_error_message r)),
            w\<lparr>sent := sent w @ [req]\<rparr>)
         \<and> (\<exists>pre post. status_error_message r =
               pre @ show_nat (status_code r) @ '' '' @ reason_phrase r @ post)"
  using assms status_message_embeds [of r]
  by (simp add: make_request_eq call_result_def read_response_def raise_for_status_def
      normalize_def)

text \<open>
  C2 at a stubbed 404: \<^verbatim>\<open>GET /meetings/nope\<close> answered \<^verbatim>\<open>404 Not Found\<close>.
\<close>

theorem http_error_status_raises_witness:
  "make_request (example_sys (always 404 ''Not Found'' [])) example_api ''GET'' ''/meetings/nope''
     None None example_world =
     (Inl (PyException (''API request failed: Client error '' @ [CHR 0x27] @ ''404 Not Found''
            @ [CHR 0x27] @ '' for url '' @ [CHR 0x27]
            @ ''https://webexapis.com/v1/meetings/nope'' @ [CHR 0x27, CHR 0x0A]
            @ ''For more information check: https://developer.mozilla.org/en-US/docs/Web/HTTP/Status/404'')),
      example_world\<lparr>sent :=
        [\<lparr> req_verb = GET, req_url = ''https://webexapis.com/v1/meetings/nope'',
           req_headers = [(''Authorization'', ''Bearer token''),
                          (''Content-Type'', ''application/json'')],
           req_params = None, req_json = None \<rparr>]\<rparr>)"
proof -
  let ?req = "\<lparr> req_verb = GET, req_url = ''https://webexapis.com/v1/meetings/nope'',
           req_headers = [(''Authorization'', ''Bearer token''),
                          (''Content-Type'', ''application/json'')],
           req_params = None, req_json = None \<rparr>"
  have m: "show_nat 404 = ''404''" by code_simp
  have "select_call example_api ''GET'' (base_url example_api @ ''/'' @ lstrip_slash ''/meetings/nope'')
          None None = Inr ?req"
    by (simp add: select_call_def upper_verbs lstrip_slash_def example_defs)
  from http_error_status_raises [OF this, of "example_sys (always 404 ''Not Found'' [])"
      example_world "answer 404 ''Not Found'' [] ?req"]
  show ?thesis
    by (simp add: example_defs status_error_message_def error_type_def redirect_line_def m)
qed

text \<open>
  C3: when \<^verbatim>\<open>method.upper()\<close> is none of GET, POST, PUT, DELETE, the call raises the
  exception with the text \<^verbatim>\<open>Request failed: Unsupported HTTP method: \<close> and the method
  as given (the \<^verbatim>\<open>ValueError\<close> of the last branch, re-raised by the second handler),
  and the state is unchanged: no request was sent. When it is one of the four, the
  chain selects a request, so the last branch is not reached, and that one request is
  sent.
\<close>

theorem unsupported_method_raises:
  "(upper method \<notin> {''GET'', ''POST'', ''PUT'', ''DELETE''} \<longrightarrow>
      make_request sys self method endpoint params data w =
        (Inl (PyException (''Request failed: Unsupported HTTP method: '' @ method)), w))
   \<and> (upper method \<in> {''GET'', ''POST'', ''PUT'', ''DELETE''} \<longrightarrow>
      (\<exists>req. select_call self method (base_url self @ ''/'' @ lstrip_slash endpoint) params data
               = Inr req
           \<and> sent (snd (make_request sys self method endpoint params data w)) = sent w @ [req]))"
  by (auto simp: make_request_eq select_call_def normalize_def)

text \<open>C3 at \<^verbatim>\<open>PATCH\<close>, which is refused, and at \<^verbatim>\<open>delete\<close> in lower case, which is sent.\<close>

theorem unsupported_method_raises_witness:
  "make_request (example_sys (always 200 ''OK'' [])) example_api ''PATCH'' ''/meetings'' None None
     example_world
     = (Inl (PyException ''Request failed: Unsupported HTTP method: PATCH''), example_world)
   \<and> (\<exists>req. select_call example_api ''delete''
               (base_url example_api @ ''/'' @ lstrip_slash ''/meetings/abc123'') None None = Inr req
           \<and> sent (snd (make_request (example_sys (always 200 ''OK'' [])) example_api ''delete''
                  ''/meetings/abc123'' None None example_world)) = sent example_world @ [req])"
proof -
  have p: "upper ''PATCH'' = ''PATCH''" and d: "upper ''delete'' = ''DELETE''"
    by (simp_all add: upper_def upper_char_def)
  show ?thesis
    using unsupported_method_raises [of "''PATCH''" "example_sys (always 200 ''OK'' [])"
        example_api "''/meetings''" None None example_world]
      unsupported_method_raises [of "''delete''" "example_sys (always 200 ''OK'' [])"
        example_api "''/meetings/abc123''" None None example_world]
    by (simp add: p d)
qed

text \<open>
  C4: a call of \<^verbatim>\<open>_make_request\<close> whose request is answered with a status from 200 to
  299 returns the empty dictionary when the body is empty, and
  \<^verbatim>\<open>json.dumps({}, indent=2)\<close> is the text \<^verbatim>\<open>{}\<close>; when the body is not empty it returns
  what \<^verbatim>\<open>json.loads\<close> makes of the body. In both cases the one request is sent.
\<close>

theorem empty_body_gives_empty_mapping:
  assumes "select_call self method (base_url self @ ''/'' @ lstrip_slash endpoint) params data = Inr req"
    and "transport sys (sent w) req = Responds r"
    and "200 \<le> status_code r" and "status_code r \<le> 299"
  shows "(content r = [] \<longrightarrow>
            make_request sys self method endpoint params data w
              = (Inr (JObj []), w\<lparr>sent := sent w @ [req]\<rparr>)
            \<and> dumps (JObj []) = ''{}'')
         \<and> (content r \<noteq> [] \<longrightarrow>
              (\<forall>v. json_loads sys (content r) = Inr v \<longrightarrow>
                 make_request sys self method endpoint params data w
                   = (Inr v, w\<lparr>sent := sent w @ [req]\<rparr>)))"
  using assms
  by (simp add: make_request_eq call_result_def read_response_def raise_for_status_def
      response_json_def dumps_def)

text \<open>
  C4 at \<^verbatim>\<open>list_meetings()\<close> answered 200 with an empty body, which returns the text
  \<^verbatim>\<open>{}\<close>, and at a body that holds a list.
\<close>

theorem empty_body_gives_empty_mapping_witness:
  "list_meetings (example_sys (always 200 ''OK'' [])) None None None None None None None
     example_world =
     (Inr ''{}'',
      example_world\<lparr>webex_api := Some example_api, sent :=
        [\<lparr> req_verb = GET, req_url = ''https://webexapis.com/v1/meetings'',
           req_headers = [(''Authorization'', ''Bearer token''),
                          (''Content-Type'', ''application/json'')],
           req_params = Some [], req_json = None \<rparr>]\<rparr>)
   \<and> fst (make_request (example_sys (always 200 ''OK'' ''[\"p1\", \"p2\", \"p3\"]'')) example_api
            ''GET'' ''/meetings'' (Some []) None example_world)
       = Inr (JArr [JStr ''p1'', JStr ''p2'', JStr ''p3''])"
proof -
  let ?req = "\<lparr> req_verb = GET, req_url = ''https://webexapis.com/v1/meetings'',
           req_headers = [(''Authorization'', ''Bearer token''),
                          (''Content-Type'', ''application/json'')],
           req_params = Some [], req_json = None \<rparr>"
  have sel: "select_call example_api ''GET'' (base_url example_api @ ''/'' @ lstrip_slash ''/meetings'')
          (Some []) None = Inr ?req"
    by (simp add: select_call_def upper_verbs lstrip_slash_def example_defs)
  have a: "make_request (example_sys (always 200 ''OK'' [])) example_api ''GET'' ''/meetings''
             (Some []) None (example_world\<lparr>webex_api := Some example_api\<rparr>)
           = (Inr (JObj []), example_world\<lparr>webex_api := Some example_api, sent := [?req]\<rparr>)
         \<and> dumps (JObj []) = ''{}''"
    using empty_body_gives_empty_mapping [OF sel, of "example_sys (always 200 ''OK'' [])"
        "example_world\<lparr>webex_api := Some example_api\<rparr>" "answer 200 ''OK'' [] ?req"]
    by (simp add: example_defs)
  have b: "make_request (example_sys (always 200 ''OK'' ''[\"p1\", \"p2\", \"p3\"]'')) example_api
            ''GET'' ''/meetings'' (Some []) None example_world
       = (Inr (JArr [JStr ''p1'', JStr ''p2'', JStr ''p3'']), example_world\<lparr>sent := [?req]\<rparr>)"
    using empty_body_gives_empty_mapping [OF sel,
        of "example_sys (always 200 ''OK'' ''[\"p1\", \"p2\", \"p3\"]'')"
        example_world "answer 200 ''OK'' ''[\"p1\", \"p2\", \"p3\"]'' ?req"]
    by (simp add: example_defs)
  have p: "list_meetings_params None None None None None None None = []"
    by (simp add: list_meetings_params_def set_if_truthy_str_def set_if_truthy_int_def
        set_if_not_None_def)
  show ?thesis
    using a b by (simp add: list_meetings_def p io_defs example_handle)
qed

text \<open>
  The tools below are stated for a process whose handle is available: \<^verbatim>\<open>get_webex_api\<close>
  returns \<open>api\<close>, because the global is set or the token is in the environment. The
  handle is then stored in the global, which is the only change to the state besides the
  requests sent.

  C5, as the code has it: with every destination absent or the empty string,
  \<^verbatim>\<open>send_message\<close> returns the text
  \<^verbatim>\<open>Error: Must specify roomId, toPersonId, or toPersonEmail\<close>; with some destination a
  non-empty string and every content field absent or the empty string it returns
  \<^verbatim>\<open>Error: Must specify text, markdown, or html content\<close>. Both are returned, not raised,
  and no request is sent.
\<close>

theorem send_message_validation:
  assumes "fst (get_webex_api w) = Inr api"
  shows "(\<not> truthy_str roomId \<and> \<not> truthy_str toPersonId \<and> \<not> truthy_str toPersonEmail \<longrightarrow>
            send_message sys roomId toPersonId toPersonEmail text' markdown html files w =
              (Inr ''Error: Must specify roomId, toPersonId, or toPersonEmail'',
               w\<lparr>webex_api := Some api\<rparr>))
       \<and> ((truthy_str roomId \<or> truthy_str toPersonId \<or> truthy_str toPersonEmail)
           \<and> \<not> truthy_str text' \<and> \<not> truthy_str markdown \<and> \<not> truthy_str html \<longrightarrow>
            send_message sys roomId toPersonId toPersonEmail text' markdown html files w =
              (Inr ''Error: Must specify text, markdown, or html content'',
               w\<lparr>webex_api := Some api\<rparr>))"
  using assms
  by (simp add: send_message_def tool_handle send_message_data_def io_return_def)

text \<open>
  C5 at a message with a text and no destination, and at one with a room and an empty
  markdown only.
\<close>

theorem send_message_validation_witness:
  "send_message (example_sys (always 200 ''OK'' [])) None None None (Some ''hello'') None None None
     example_world =
     (Inr ''Error: Must specify roomId, toPersonId, or toPersonEmail'',
      example_world\<lparr>webex_api := Some example_api\<rparr>)
   \<and> send_message (example_sys (always 200 ''OK'' [])) (Some ''room1'') None None None (Some []) None
       None example_world =
     (Inr ''Error: Must specify text, markdown, or html content'',
      example_world\<lparr>webex_api := Some example_api\<rparr>)"
  using send_message_validation [of example_world example_api None None None
      "example_sys (always 200 ''OK'' [])" "Some ''hello''" None None None]
    send_message_validation [of example_world example_api "Some ''room1''" None None
      "example_sys (always 200 ''OK'' [])" None "Some []" None None]
  by (simp add: example_handle truthy_str_def)

text \<open>
  C5 as the claim words it fails at \<^verbatim>\<open>send_message(roomId="")\<close>: a destination field is
  supplied and every content field is absent, yet the text returned is the one about the
  destination, and it starts with \<^verbatim>\<open>Error: \<close>.
\<close>

theorem send_message_empty_destination_counterexample:
  "send_message (example_sys (always 200 ''OK'' [])) (Some []) None None None None None None
     example_world =
     (Inr ''Error: Must specify roomId, toPersonId, or toPersonEmail'',
      example_world\<lparr>webex_api := Some example_api\<rparr>)
   \<and> fst (send_message (example_sys (always 200 ''OK'' [])) (Some []) None None None None None None
       example_world) \<noteq> Inr ''Must specify text, markdown, or html content''
   \<and> fst (send_message (example_sys (always 200 ''OK'' [])) (Some []) None None None None None None
       example_world) \<noteq> Inr ''Error: Must specify text, markdown, or html content''"
  by (simp add: send_message_def io_defs example_handle send_message_data_def truthy_str_def)

text \<open>
  C6, as the code has it: when \<^verbatim>\<open>json.loads\<close> rejects the text \<open>s\<close>,
  \<^verbatim>\<open>create_meeting\<close> with a non-empty \<^verbatim>\<open>invitees\<close> \<open>s\<close>, \<^verbatim>\<open>add_participants\<close> and
  \<^verbatim>\<open>remove_participants\<close> with \<open>s\<close>, and \<^verbatim>\<open>send_message\<close> with a non-empty
  \<^verbatim>\<open>files\<close> \<open>s\<close> that has passed the two checks of C5, return the text
  \<^verbatim>\<open>Error: Invalid JSON format for \<close> followed by \<^verbatim>\<open>invitees\<close>, \<^verbatim>\<open>participants\<close>,
  \<^verbatim>\<open>participant IDs\<close> and \<^verbatim>\<open>files\<close>, and send no request.
\<close>

theorem invalid_json_argument:
  assumes "fst (get_webex_api w) = Inr api"
    and "json_loads sys s = Inl m"
  shows "(s \<noteq> [] \<longrightarrow>
            create_meeting sys title agenda password start end' timezone
                enabledAutoRecordMeeting allowAnyUserToBeCoHost (Some s) w =
              (Inr ''Error: Invalid JSON format for invitees'', w\<lparr>webex_api := Some api\<rparr>))
       \<and> add_participants sys meeting_id s w =
              (Inr ''Error: Invalid JSON format for participants'', w\<lparr>webex_api := Some api\<rparr>)
       \<and> remove_participants sys meeting_id s w =
              (Inr ''Error: Invalid JSON format for participant IDs'', w\<lparr>webex_api := Some api\<rparr>)
       \<and> (s \<noteq> [] \<and> (truthy_str roomId \<or> truthy_str toPersonId \<or> truthy_str toPersonEmail)
           \<and> (truthy_str text' \<or> truthy_str markdown \<or> truthy_str html) \<longrightarrow>
            send_message sys roomId toPersonId toPersonEmail text' markdown html (Some s) w =
              (Inr ''Error: Invalid JSON format for files'', w\<lparr>webex_api := Some api\<rparr>))"
proof -
  have c: "s \<noteq> [] \<Longrightarrow> create_meeting_data sys title agenda password start end' timezone
                enabledAutoRecordMeeting allowAnyUserToBeCoHost (Some s)
             = Inl ''Error: Invalid JSON format for invitees''"
    using assms(2) by (simp add: create_meeting_data_def Let_def)
  have f: "s \<noteq> [] \<Longrightarrow> truthy_str roomId \<or> truthy_str toPersonId \<or> truthy_str toPersonEmail
           \<Longrightarrow> truthy_str text' \<or> truthy_str markdown \<or> truthy_str html
           \<Longrightarrow> send_message_data sys roomId toPersonId toPersonEmail text' markdown html (Some s)
             = Inl ''Error: Invalid JSON format for files''"
    using assms(2) by (simp add: send_message_data_def Let_def)
  have a: "add_participants sys meeting_id s w =
              (Inr ''Error: Invalid JSON format for participants'', w\<lparr>webex_api := Some api\<rparr>)"
    using assms(2) get_webex_api_handle [OF assms(1)] by (simp add: add_participants_def io_defs)
  have r: "remove_participants sys meeting_id s w =
              (Inr ''Error: Invalid JSON format for participant IDs'', w\<lparr>webex_api := Some api\<rparr>)"
    using assms(2) get_webex_api_handle [OF assms(1)] by (simp add: remove_participants_def io_defs)
  show ?thesis
    using assms(1) a r c f
    by (simp add: create_meeting_def send_message_def tool_handle io_return_def)
qed

text \<open>
  C6 at the text \<^verbatim>\<open>[not json\<close>, for the four tools.
\<close>

theorem invalid_json_argument_witness:
  "create_meeting (example_sys (always 200 ''OK'' [])) ''Sync'' None None None None None None None
       (Some ''[not json'') example_world =
     (Inr ''Error: Invalid JSON format for invitees'', example_world\<lparr>webex_api := Some example_api\<rparr>)
   \<and> add_participants (example_sys (always 200 ''OK'' [])) ''m1'' ''[not json'' example_world =
     (Inr ''Error: Invalid JSON format for participants'', example_world\<lparr>webex_api := Some example_api\<rparr>)
   \<and> remove_participants (example_sys (always 200 ''OK'' [])) ''m1'' ''[not json'' example_world =
     (Inr ''Error: Invalid JSON format for participant IDs'', example_world\<lparr>webex_api := Some example_api\<rparr>)
   \<and> send_message (example_sys (always 200 ''OK'' [])) (Some ''room1'') None None (Some ''hello'')
       None None (Some ''[not json'') example_world =
     (Inr ''Error: Invalid JSON format for files'', example_world\<lparr>webex_api := Some example_api\<rparr>)"
proof -
  have h: "fst (get_webex_api example_world) = Inr example_api"
    by (simp add: example_handle)
  have l: "json_loads (example_sys (always 200 ''OK'' [])) ''[not json''
            = Inl ''Expecting value: line 1 column 1 (char 0)''"
    by (simp add: example_sys_def example_loads_def)
  show ?thesis
    using invalid_json_argument [OF h l, of "''Sync''" None None None None None None None "''m1''"
        "Some ''room1''" None None "Some ''hello''" None None]
    by (simp add: truthy_str_def)
qed

text \<open>
  C6 as the claim words it fails at \<^verbatim>\<open>create_meeting("Sync", invitees="")\<close>: the empty
  string is not JSON, but \<^verbatim>\<open>if invitees:\<close> skips it, and the meeting is posted.
\<close>

theorem empty_invitees_is_sent_counterexample:
  "json_loads (example_sys (always 200 ''OK'' [])) [] = Inl ''Expecting value: line 1 column 1 (char 0)''
   \<and> create_meeting (example_sys (always 200 ''OK'' [])) ''Sync'' None None None None None None None
       (Some []) example_world =
     (Inr ''{}'',
      example_world\<lparr>webex_api := Some example_api, sent :=
        [\<lparr> req_verb = POST, req_url = ''https://webexapis.com/v1/meetings'',
           req_headers = [(''Authorization'', ''Bearer token''),
                          (''Content-Type'', ''application/json'')],
           req_params = None, req_json = Some [(''title'', JStr ''Sync'')] \<rparr>]\<rparr>)"
  by (simp add: create_meeting_def create_meeting_data_def set_if_truthy_str_def
      set_if_not_None_def io_defs get_webex_api_def make_request_eq select_call_def upper_verbs
      lstrip_slash_def call_result_def read_response_def raise_for_status_def dumps_def
      example_defs)

text \<open>
  The loop of \<^verbatim>\<open>remove_participants\<close>: each element costs one call; the loop runs to the
  end when every call is accepted, and stops at the first call that is not.
\<close>

lemma removal_call:
  "make_request sys api ''DELETE'' (invitee_endpoint sys meeting_id p) None None w =
     (call_result sys (sent w) (removal_request sys api meeting_id p),
      w\<lparr>sent := sent w @ [removal_request sys api meeting_id p]\<rparr>)"
  by (simp add: make_request_eq select_call_def upper_verbs invitee_endpoint_def lstrip_slash_def
      removal_request_def)

lemma remove_loop_all_accepted:
  "(\<forall>i<length ids. accepted sys (sent w @ take i (map (removal_request sys api meeting_id) ids))
        (removal_request sys api meeting_id (ids ! i)))
   \<Longrightarrow> remove_loop sys api meeting_id ids w =
         (Inr (), w\<lparr>sent := sent w @ map (removal_request sys api meeting_id) ids\<rparr>)"
proof (induction ids arbitrary: w)
  case Nil
  then show ?case by simp
next
  case (Cons p ps)
  let ?R = "removal_request sys api meeting_id"
  let ?w = "w\<lparr>sent := sent w @ [?R p]\<rparr>"
  from Cons.prems have first: "accepted sys (sent w) (?R p)"
    by (auto dest: spec [of _ 0])
  have rest: "\<forall>i<length ps. accepted sys (sent ?w @ take i (map ?R ps)) (?R (ps ! i))"
  proof (intro allI impI)
    fix i assume "i < length ps"
    with Cons.prems have "accepted sys (sent w @ take (Suc i) (map ?R (p # ps))) (?R ((p # ps) ! Suc i))"
      by (auto dest: spec [of _ "Suc i"])
    then show "accepted sys (sent ?w @ take i (map ?R ps)) (?R (ps ! i))"
      by simp
  qed
  from first obtain v where "call_result sys (sent w) (?R p) = Inr v"
    by (auto simp: accepted_def split: sum.splits)
  with Cons.IH [OF rest] show ?case
    by (simp add: removal_call)
qed

lemma remove_loop_first_failure:
  "k < length ids
   \<Longrightarrow> (\<forall>i<k. accepted sys (sent w @ take i (map (removal_request sys api meeting_id) ids))
        (removal_request sys api meeting_id (ids ! i)))
   \<Longrightarrow> call_result sys (sent w @ take k (map (removal_request sys api meeting_id) ids))
        (removal_request sys api meeting_id (ids ! k)) = Inl e
   \<Longrightarrow> remove_loop sys api meeting_id ids w =
         (Inl e, w\<lparr>sent := sent w @ take (Suc k) (map (removal_request sys api meeting_id) ids)\<rparr>)"
proof (induction ids arbitrary: w k)
  case Nil
  then show ?case by simp
next
  case (Cons p ps)
  let ?R = "removal_request sys api meeting_id"
  let ?w = "w\<lparr>sent := sent w @ [?R p]\<rparr>"
  show ?case
  proof (cases k)
    case 0
    with Cons.prems show ?thesis by (simp add: removal_call)
  next
    case (Suc j)
    with Cons.prems have j: "j < length ps" by simp
    from Cons.prems Suc have first: "accepted sys (sent w) (?R p)"
      by (auto dest: spec [of _ 0])
    have rest: "\<forall>i<j. accepted sys (sent ?w @ take i (map ?R ps)) (?R (ps ! i))"
    proof (intro allI impI)
      fix i assume "i < j"
      with Cons.prems Suc
      have "accepted sys (sent w @ take (Suc i) (map ?R (p # ps))) (?R ((p # ps) ! Suc i))"
        by (auto dest: spec [of _ "Suc i"])
      then show "accepted sys (sent ?w @ take i (map ?R ps)) (?R (ps ! i))"
        by simp
    qed
    from Cons.prems Suc
    have fail: "call_result sys (sent ?w @ take j (map ?R ps)) (?R (ps ! j)) = Inl e"
      by simp
    from first obtain v where "call_result sys (sent w) (?R p) = Inr v"
      by (auto simp: accepted_def split: sum.splits)
    with Cons.IH [OF j rest fail] Suc show ?thesis
      by (simp add: removal_call)
  qed
qed

text \<open>
  C7: \<^verbatim>\<open>remove_participants\<close> with a text that \<^verbatim>\<open>json.loads\<close> reads as the list \<open>ids\<close>.
  \<open>reqs\<close> holds one DELETE of \<^verbatim>\<open>/meetings/{id}/invitees/{participantId}\<close> per element, in
  the order of the list. When every call is accepted, exactly \<open>reqs\<close> is sent and the
  confirmation is returned. When the call for element \<open>k\<close> (counted from 0) is the first
  to fail, its failure is raised, and what was sent is the requests up to and including
  that one: the earlier ones stay sent, no later one is made, none is taken back.
\<close>

theorem remove_participants_one_call_per_id:
  fixes sys :: sys and api :: WebexAPI and meeting_id :: string and ids :: "json list"
  defines "reqs \<equiv> map (removal_request sys api meeting_id) ids"
  assumes "fst (get_webex_api w) = Inr api"
    and "json_loads sys participant_ids = Inr (JArr ids)"
  shows "((\<forall>i<length ids. accepted sys (sent w @ take i reqs) (reqs ! i)) \<longrightarrow>
            remove_participants sys meeting_id participant_ids w =
              (Inr ''Participants removed successfully'',
               w\<lparr>webex_api := Some api, sent := sent w @ reqs\<rparr>))
       \<and> (\<forall>k<length ids. \<forall>e.
             (\<forall>i<k. accepted sys (sent w @ take i reqs) (reqs ! i))
             \<and> call_result sys (sent w @ take k reqs) (reqs ! k) = Inl e \<longrightarrow>
            remove_participants sys meeting_id participant_ids w =
              (Inl e, w\<lparr>webex_api := Some api, sent := sent w @ take (Suc k) reqs\<rparr>))"
proof -
  let ?w = "w\<lparr>webex_api := Some api\<rparr>"
  have start: "remove_participants sys meeting_id participant_ids w =
      (case remove_loop sys api meeting_id ids ?w of
         (Inl e, w') \<Rightarrow> (case e of JSONDecodeError _ \<Rightarrow> (Inr ''Error: Invalid JSON format for participant IDs'', w') | _ \<Rightarrow> (Inl e, w'))
       | (Inr _, w') \<Rightarrow> (Inr ''Participants removed successfully'', w'))"
    using assms(3) get_webex_api_handle [OF assms(2)]
    by (simp add: remove_participants_def io_defs py_iter_def split: prod.splits sum.splits exn.splits)
  have ok: "remove_participants sys meeting_id participant_ids w =
              (Inr ''Participants removed successfully'',
               w\<lparr>webex_api := Some api, sent := sent w @ reqs\<rparr>)"
    if "\<forall>i<length ids. accepted sys (sent w @ take i reqs) (reqs ! i)"
  proof -
    from that have "\<forall>i<length ids. accepted sys (sent ?w @ take i (map (removal_request sys api meeting_id) ids))
        (removal_request sys api meeting_id (ids ! i))"
      by (simp add: reqs_def)
    from remove_loop_all_accepted [OF this] show ?thesis
      by (simp add: start reqs_def)
  qed
  have bad: "remove_participants sys meeting_id participant_ids w =
              (Inl e, w\<lparr>webex_api := Some api, sent := sent w @ take (Suc k) reqs\<rparr>)"
    if k: "k < length ids"
      and pre: "\<forall>i<k. accepted sys (sent w @ take i reqs) (reqs ! i)"
      and fail: "call_result sys (sent w @ take k reqs) (reqs ! k) = Inl e" for k e
  proof -
    from pre k have 1: "\<forall>i<k. accepted sys (sent ?w @ take i (map (removal_request sys api meeting_id) ids))
        (removal_request sys api meeting_id (ids ! i))"
      by (simp add: reqs_def)
    from fail k have 2: "call_result sys (sent ?w @ take k (map (removal_request sys api meeting_id) ids))
        (removal_request sys api meeting_id (ids ! k)) = Inl e"
      by (simp add: reqs_def)
    from fail k obtain m where e: "e = PyException m"
      by (auto simp: call_result_def normalize_def split: outcome.splits sum.splits exn.splits)
    from remove_loop_first_failure [OF k 1 2] show ?thesis
      by (simp add: start reqs_def e)
  qed
  from ok bad show ?thesis by blast
qed

text \<open>
  C7 at three participants: all removed by a platform that answers 204, and stopped at
  the second by a platform that answers it 404.
\<close>

theorem remove_participants_one_call_per_id_witness:
  "remove_participants (example_sys (always 204 ''No Content'' [])) ''m1'' ''[\"p1\", \"p2\", \"p3\"]''
     example_world =
     (Inr ''Participants removed successfully'',
      example_world\<lparr>webex_api := Some example_api, sent :=
        [removal_request (example_sys (always 204 ''No Content'' [])) example_api ''m1'' (JStr ''p1''),
         removal_request (example_sys (always 204 ''No Content'' [])) example_api ''m1'' (JStr ''p2''),
         removal_request (example_sys (always 204 ''No Content'' [])) example_api ''m1'' (JStr ''p3'')]\<rparr>)
   \<and> removal_request (example_sys (always 204 ''No Content'' [])) example_api ''m1'' (JStr ''p1'') =
       \<lparr> req_verb = DELETE, req_url = ''https://webexapis.com/v1/meetings/m1/invitees/p1'',
         req_headers = [(''Authorization'', ''Bearer token''),
                        (''Content-Type'', ''application/json'')],
         req_params = None, req_json = None \<rparr>
   \<and> (\<exists>m. remove_participants (example_sys second_refused) ''m1'' ''[\"p1\", \"p2\", \"p3\"]''
          example_world =
       (Inl (PyException m),
        example_world\<lparr>webex_api := Some example_api, sent :=
          [removal_request (example_sys second_refused) example_api ''m1'' (JStr ''p1''),
           removal_request (example_sys second_refused) example_api ''m1'' (JStr ''p2'')]\<rparr>))"
proof -
  have h: "fst (get_webex_api example_world) = Inr example_api"
    by (simp add: example_handle)
  have l: "json_loads (example_sys t) ''[\"p1\", \"p2\", \"p3\"]''
             = Inr (JArr [JStr ''p1'', JStr ''p2'', JStr ''p3''])" for t
    by (simp add: example_sys_def example_loads_def)
  have a: "accepted (example_sys (always 204 ''No Content'' [])) hist req" for hist req
    by (simp add: accepted_def call_result_def read_response_def raise_for_status_def example_defs)
  have b: "accepted (example_sys second_refused) [] req" for req
    by (simp add: accepted_def call_result_def read_response_def raise_for_status_def example_defs)
  have c: "\<exists>m. call_result (example_sys second_refused) [r1] req = Inl (PyException m)" for r1 req
    by (simp add: call_result_def read_response_def raise_for_status_def normalize_def example_defs)
  then obtain m where m: "call_result (example_sys second_refused)
      [removal_request (example_sys second_refused) example_api ''m1'' (JStr ''p1'')]
      (removal_request (example_sys second_refused) example_api ''m1'' (JStr ''p2'')) = Inl (PyException m)"
    by blast
  have s0: "sent example_world = []" by (simp add: example_world_def)
  have 1: "remove_participants (example_sys (always 204 ''No Content'' [])) ''m1'' ''[\"p1\", \"p2\", \"p3\"]''
     example_world =
     (Inr ''Participants removed successfully'',
      example_world\<lparr>webex_api := Some example_api, sent :=
        [removal_request (example_sys (always 204 ''No Content'' [])) example_api ''m1'' (JStr ''p1''),
         removal_request (example_sys (always 204 ''No Content'' [])) example_api ''m1'' (JStr ''p2''),
         removal_request (example_sys (always 204 ''No Content'' [])) example_api ''m1'' (JStr ''p3'')]\<rparr>)"
    using remove_participants_one_call_per_id [OF h l, of "always 204 ''No Content'' []" "''m1''"]
    by (simp add: a s0)
  have 2: "remove_participants (example_sys second_refused) ''m1'' ''[\"p1\", \"p2\", \"p3\"]''
          example_world =
       (Inl (PyException m),
        example_world\<lparr>webex_api := Some example_api, sent :=
          [removal_request (example_sys second_refused) example_api ''m1'' (JStr ''p1''),
           removal_request (example_sys second_refused) example_api ''m1'' (JStr ''p2'')]\<rparr>)"
    using remove_participants_one_call_per_id [OF h l, of second_refused "''m1''"] b m
    by (auto simp: s0 All_less_Suc dest!: spec [of _ 1])
  have 3: "removal_request (example_sys (always 204 ''No Content'' [])) example_api ''m1'' (JStr ''p1'') =
       \<lparr> req_verb = DELETE, req_url = ''https://webexapis.com/v1/meetings/m1/invitees/p1'',
         req_headers = [(''Authorization'', ''Bearer token''),
                        (''Content-Type'', ''application/json'')],
         req_params = None, req_json = None \<rparr>"
    by (simp add: removal_request_def format_value_def example_defs)
  from 1 2 3 show ?thesis by blast
qed

text \<open>
  C8: \<^verbatim>\<open>delete_meeting("abc123")\<close> builds an empty \<^verbatim>\<open>params\<close>, sends exactly one request,
  a DELETE of \<^verbatim>\<open>/meetings/abc123\<close> under the base URL with no query parameters, and when
  that call is accepted returns \<^verbatim>\<open>Meeting abc123 deleted successfully\<close>.
\<close>

theorem delete_meeting_abc123:
  assumes "fst (get_webex_api w) = Inr api"
  shows "delete_meeting_params None = []
       \<and> sent (snd (delete_meeting sys ''abc123'' None w)) =
           sent w @ [\<lparr> req_verb = DELETE, req_url = base_url api @ ''/meetings/abc123'',
                       req_headers = headers api, req_params = None, req_json = None \<rparr>]
       \<and> (accepted sys (sent w)
             \<lparr> req_verb = DELETE, req_url = base_url api @ ''/meetings/abc123'',
               req_headers = headers api, req_params = None, req_json = None \<rparr> \<longrightarrow>
           fst (delete_meeting sys ''abc123'' None w) = Inr ''Meeting abc123 deleted successfully'')"
  using get_webex_api_handle [OF assms]
  by (auto simp: delete_meeting_def delete_meeting_params_def set_if_not_None_def
      io_bind_def io_return_def make_request_eq select_call_def upper_verbs lstrip_slash_def
      accepted_def split: sum.splits)

text \<open>
  C8 against a platform that answers 204.
\<close>

theorem delete_meeting_abc123_witness:
  "delete_meeting (example_sys (always 204 ''No Content'' [])) ''abc123'' None example_world =
     (Inr ''Meeting abc123 deleted successfully'',
      example_world\<lparr>webex_api := Some example_api, sent :=
        [\<lparr> req_verb = DELETE, req_url = ''https://webexapis.com/v1/meetings/abc123'',
           req_headers = [(''Authorization'', ''Bearer token''),
                          (''Content-Type'', ''application/json'')],
           req_params = None, req_json = None \<rparr>]\<rparr>)"
proof -
  have h: "fst (get_webex_api example_world) = Inr example_api"
    by (simp add: example_handle)
  have w: "snd (delete_meeting (example_sys (always 204 ''No Content'' [])) ''abc123'' None example_world)
           = example_world\<lparr>webex_api := Some example_api,
               sent := sent (snd (delete_meeting (example_sys (always 204 ''No Content'' []))
                         ''abc123'' None example_world))\<rparr>"
    by (simp add: delete_meeting_def io_bind_def io_return_def example_handle make_request_eq
        select_call_def upper_verbs split: sum.splits)
  show ?thesis
    using delete_meeting_abc123 [OF h, of "example_sys (always 204 ''No Content'' [])"] w
    by (simp add: prod_eq_iff accepted_def call_result_def read_response_def raise_for_status_def
        example_defs)
qed

text \<open>
  C9: \<^verbatim>\<open>get_meeting_transcript\<close> always returns a text; when its call of
  \<^verbatim>\<open>_make_request\<close> raises \<open>e\<close>, the text is \<^verbatim>\<open>Transcript not available: \<close> followed
  by \<^verbatim>\<open>str(e)\<close>.
\<close>

theorem transcript_failure_is_returned:
  assumes "fst (get_webex_api w) = Inr api"
  shows "(\<exists>s. fst (get_meeting_transcript sys meeting_id format w) = Inr s)
       \<and> (\<forall>e w'. make_request sys api ''GET'' (''/meetings/'' @ meeting_id @ ''/transcripts'')
                    (Some (get_meeting_transcript_params format)) None (w\<lparr>webex_api := Some api\<rparr>)
                  = (Inl e, w') \<longrightarrow>
              get_meeting_transcript sys meeting_id format w =
                (Inr (''Transcript not available: '' @ exn_str e), w'))"
  using get_webex_api_handle [OF assms]
  by (auto simp: get_meeting_transcript_def io_bind_def io_catch_def io_return_def
      split: sum.splits prod.splits)

text \<open>
  C9 against a platform that answers 404.
\<close>

theorem transcript_failure_is_returned_witness:
  "get_meeting_transcript (example_sys (always 404 ''Not Found'' [])) ''m1'' None example_world =
     (Inr (''Transcript not available: API request failed: Client error '' @ [CHR 0x27]
           @ ''404 Not Found'' @ [CHR 0x27] @ '' for url '' @ [CHR 0x27]
           @ ''https://webexapis.com/v1/meetings/m1/transcripts'' @ [CHR 0x27, CHR 0x0A]
           @ ''For more information check: https://developer.mozilla.org/en-US/docs/Web/HTTP/Status/404''),
      example_world\<lparr>webex_api := Some example_api, sent :=
        [\<lparr> req_verb = GET, req_url = ''https://webexapis.com/v1/meetings/m1/transcripts'',
           req_headers = [(''Authorization'', ''Bearer token''),
                          (''Content-Type'', ''application/json'')],
           req_params = Some [], req_json = None \<rparr>]\<rparr>)"
proof -
  have h: "fst (get_webex_api example_world) = Inr example_api"
    by (simp add: example_handle)
  have m: "show_nat 404 = ''404''" by code_simp
  have c: "make_request (example_sys (always 404 ''Not Found'' [])) example_api ''GET''
             (''/meetings/'' @ ''m1'' @ ''/transcripts'')
             (Some (get_meeting_transcript_params None)) None
             (example_world\<lparr>webex_api := Some example_api\<rparr>) =
           (Inl (PyException (''API request failed: Client error '' @ [CHR 0x27]
              @ ''404 Not Found'' @ [CHR 0x27] @ '' for url '' @ [CHR 0x27]
              @ ''https://webexapis.com/v1/meetings/m1/transcripts'' @ [CHR 0x27, CHR 0x0A]
              @ ''For more information check: https://developer.mozilla.org/en-US/docs/Web/HTTP/Status/404'')),
            example_world\<lparr>webex_api := Some example_api, sent :=
              [\<lparr> req_verb = GET, req_url = ''https://webexapis.com/v1/meetings/m1/transcripts'',
                 req_headers = [(''Authorization'', ''Bearer token''),
                                (''Content-Type'', ''application/json'')],
                 req_params = Some [], req_json = None \<rparr>]\<rparr>)"
    by (simp add: make_request_eq select_call_def upper_verbs lstrip_slash_def call_result_def
        read_response_def raise_for_status_def normalize_def status_error_message_def
        error_type_def redirect_line_def m get_meeting_transcript_params_def
        set_if_truthy_str_def example_defs)
  show ?thesis
    using transcript_failure_is_returned [OF h, of "example_sys (always 404 ''Not Found'' [])"
        "''m1''" None] c
    by simp
qed

text \<open>
  Which keys a dictionary built by the guarded assignments holds.
\<close>

lemma in_keys_dict_set:
  "k' \<in> set (dict_keys (dict_set d k v)) \<longleftrightarrow> k' = k \<or> k' \<in> set (dict_keys d)"
  by (induction d) (auto simp: dict_keys_def)

lemma in_keys_set_if_truthy_str:
  "k' \<in> set (dict_keys (set_if_truthy_str k v d)) \<longleftrightarrow>
     (k' = k \<and> v \<noteq> None \<and> v \<noteq> Some []) \<or> k' \<in> set (dict_keys d)"
  by (auto simp: set_if_truthy_str_def in_keys_dict_set split: option.splits)

lemma in_keys_set_if_truthy_int:
  "k' \<in> set (dict_keys (set_if_truthy_int k v d)) \<longleftrightarrow>
     (k' = k \<and> v \<noteq> None \<and> v \<noteq> Some 0) \<or> k' \<in> set (dict_keys d)"
  by (auto simp: set_if_truthy_int_def in_keys_dict_set split: option.splits)

lemma in_keys_set_if_not_None:
  "k' \<in> set (dict_keys (set_if_not_None k v d)) \<longleftrightarrow>
     (k' = k \<and> v \<noteq> None) \<or> k' \<in> set (dict_keys d)"
  by (auto simp: set_if_not_None_def in_keys_dict_set split: option.splits)

lemma in_keys_literal:
  "k' \<in> set (dict_keys []) \<longleftrightarrow> False"
  "k' \<in> set (dict_keys ((k, v) # d)) \<longleftrightarrow> k' = k \<or> k' \<in> set (dict_keys d)"
  by (auto simp: dict_keys_def)

lemmas in_keys = in_keys_dict_set in_keys_set_if_truthy_str in_keys_set_if_truthy_int
  in_keys_set_if_not_None in_keys_literal

lemma create_meeting_data_keys:
  "create_meeting_data sys title agenda password start end' timezone
       enabledAutoRecordMeeting allowAnyUserToBeCoHost invitees = Inr data
   \<Longrightarrow> k \<in> set (dict_keys data) \<longleftrightarrow>
         (k = ''invitees'' \<and> invitees \<noteq> None \<and> invitees \<noteq> Some [])
         \<or> k \<in> set (dict_keys
           (set_if_not_None ''allowAnyUserToBeCoHost'' allowAnyUserToBeCoHost
           (set_if_not_None ''enabledAutoRecordMeeting'' enabledAutoRecordMeeting
           (set_if_truthy_str ''timezone'' timezone
           (set_if_truthy_str ''end'' end'
           (set_if_truthy_str ''start'' start
           (set_if_truthy_str ''password'' password
           (set_if_truthy_str ''agenda'' agenda [(''title'', JStr title)]))))))))"
  unfolding create_meeting_data_def Let_def
  by (auto simp: in_keys_dict_set split: option.splits if_splits sum.splits)

lemma send_message_data_keys:
  "send_message_data sys roomId toPersonId toPersonEmail text' markdown html files = Inr data
   \<Longrightarrow> k \<in> set (dict_keys data) \<longleftrightarrow>
         (k = ''files'' \<and> files \<noteq> None \<and> files \<noteq> Some [])
         \<or> k \<in> set (dict_keys
           (set_if_truthy_str ''html'' html
           (set_if_truthy_str ''markdown'' markdown
           (set_if_truthy_str ''text'' text'
           (set_if_truthy_str ''toPersonEmail'' toPersonEmail
           (set_if_truthy_str ''toPersonId'' toPersonId
           (set_if_truthy_str ''roomId'' roomId [])))))))"
  unfolding send_message_data_def Let_def
  by (auto simp: in_keys_dict_set split: option.splits if_splits sum.splits)

lemma add_member_to_space_data_keys:
  "add_member_to_space_data roomId personId personEmail isModerator = Inr data
   \<Longrightarrow> k \<in> set (dict_keys data) \<longleftrightarrow>
         k \<in> set (dict_keys
           (set_if_not_None ''isModerator'' isModerator
           (set_if_truthy_str ''personEmail'' personEmail
           (set_if_truthy_str ''personId'' personId [(''roomId'', JStr roomId)]))))"
  unfolding add_member_to_space_data_def Let_def
  by (auto split: if_splits)

text \<open>
  C10: for every tool that builds \<^verbatim>\<open>params\<close> or \<^verbatim>\<open>data\<close>, and every optional argument
  of it, the key of an argument that is not supplied (\<open>None\<close>) is not in the dictionary
  handed to \<^verbatim>\<open>_make_request\<close>. The same holds for a string argument that is the empty
  string and for \<^verbatim>\<open>max\<close> when it is 0; a boolean is left out only when it is not
  supplied. \<^verbatim>\<open>send_message\<close> whose three content fields are empty strings returns the
  text about the content before any dictionary is built. The tools with no optional
  argument (\<^verbatim>\<open>get_recording\<close>, \<^verbatim>\<open>add_participants\<close>, \<^verbatim>\<open>remove_participants\<close>) have no
  line here.
\<close>

theorem unsupplied_arguments_are_omitted:
  "(\<forall>meetingType state scheduledType current from_date to_date max'.
      let params = list_meetings_params meetingType state scheduledType current from_date
        to_date max' in
        (meetingType = None \<or> meetingType = Some [] \<longrightarrow> omitted ''meetingType'' params) \<and>
        (state = None \<or> state = Some [] \<longrightarrow> omitted ''state'' params) \<and>
        (scheduledType = None \<or> scheduledType = Some [] \<longrightarrow> omitted ''scheduledType'' params) \<and>
        (current = None \<longrightarrow> omitted ''current'' params) \<and>
        (from_date = None \<or> from_date = Some [] \<longrightarrow> omitted ''from'' params) \<and>
        (to_date = None \<or> to_date = Some [] \<longrightarrow> omitted ''to'' params) \<and>
        (max' = None \<or> max' = Some 0 \<longrightarrow> omitted ''max'' params)) \<and>
   (\<forall>current.
      let params = get_meeting_details_params current in
        (current = None \<longrightarrow> omitted ''current'' params)) \<and>
   (\<forall>format.
      let params = get_meeting_transcript_params format in
        (format = None \<or> format = Some [] \<longrightarrow> omitted ''format'' params)) \<and>
   (\<forall>meeting_id from_date to_date max'.
      let params = list_recordings_params meeting_id from_date to_date max' in
        (meeting_id = None \<or> meeting_id = Some [] \<longrightarrow> omitted ''meetingId'' params) \<and>
        (from_date = None \<or> from_date = Some [] \<longrightarrow> omitted ''from'' params) \<and>
        (to_date = None \<or> to_date = Some [] \<longrightarrow> omitted ''to'' params) \<and>
        (max' = None \<or> max' = Some 0 \<longrightarrow> omitted ''max'' params)) \<and>
   (\<forall>sys title agenda password start end' timezone enabledAutoRecordMeeting
     allowAnyUserToBeCoHost invitees data.
      create_meeting_data sys title agenda password start end' timezone
        enabledAutoRecordMeeting allowAnyUserToBeCoHost invitees = Inr data \<longrightarrow>
        (agenda = None \<or> agenda = Some [] \<longrightarrow> omitted ''agenda'' data) \<and>
        (password = None \<or> password = Some [] \<longrightarrow> omitted ''password'' data) \<and>
        (start = None \<or> start = Some [] \<longrightarrow> omitted ''start'' data) \<and>
        (end' = None \<or> end' = Some [] \<longrightarrow> omitted ''end'' data) \<and>
        (timezone = None \<or> timezone = Some [] \<longrightarrow> omitted ''timezone'' data) \<and>
        (enabledAutoRecordMeeting = None \<longrightarrow> omitted ''enabledAutoRecordMeeting'' data) \<and>
        (allowAnyUserToBeCoHost = None \<longrightarrow> omitted ''allowAnyUserToBeCoHost'' data) \<and>
        (invitees = None \<or> invitees = Some [] \<longrightarrow> omitted ''invitees'' data)) \<and>
   (\<forall>title agenda password start end' timezone.
      let data = update_meeting_data title agenda password start end' timezone in
        (title = None \<or> title = Some [] \<longrightarrow> omitted ''title'' data) \<and>
        (agenda = None \<or> agenda = Some [] \<longrightarrow> omitted ''agenda'' data) \<and>
        (password = None \<or> password = Some [] \<longrightarrow> omitted ''password'' data) \<and>
        (start = None \<or> start = Some [] \<longrightarrow> omitted ''start'' data) \<and>
        (end' = None \<or> end' = Some [] \<longrightarrow> omitted ''end'' data) \<and>
        (timezone = None \<or> timezone = Some [] \<longrightarrow> omitted ''timezone'' data)) \<and>
   (\<forall>sendEmail.
      let params = delete_meeting_params sendEmail in
        (sendEmail = None \<longrightarrow> omitted ''sendEmail'' params)) \<and>
   (\<forall>joinedBefore joinedAfter max'.
      let params = list_participants_params joinedBefore joinedAfter max' in
        (joinedBefore = None \<or> joinedBefore = Some [] \<longrightarrow> omitted ''joinedBefore'' params) \<and>
        (joinedAfter = None \<or> joinedAfter = Some [] \<longrightarrow> omitted ''joinedAfter'' params) \<and>
        (max' = None \<or> max' = Some 0 \<longrightarrow> omitted ''max'' params)) \<and>
   (\<forall>teamId type' sortBy max'.
      let params = list_spaces_params teamId type' sortBy max' in
        (teamId = None \<or> teamId = Some [] \<longrightarrow> omitted ''teamId'' params) \<and>
        (type' = None \<or> type' = Some [] \<longrightarrow> omitted ''type'' params) \<and>
        (sortBy = None \<or> sortBy = Some [] \<longrightarrow> omitted ''sortBy'' params) \<and>
        (max' = None \<or> max' = Some 0 \<longrightarrow> omitted ''max'' params)) \<and>
   (\<forall>roomId mentionedPeople before beforeMessage max'.
      let params = get_messages_params roomId mentionedPeople before beforeMessage max' in
        (mentionedPeople = None \<or> mentionedPeople = Some [] \<longrightarrow> omitted ''mentionedPeople'' params) \<and>
        (before = None \<or> before = Some [] \<longrightarrow> omitted ''before'' params) \<and>
        (beforeMessage = None \<or> beforeMessage = Some [] \<longrightarrow> omitted ''beforeMessage'' params) \<and>
        (max' = None \<or> max' = Some 0 \<longrightarrow> omitted ''max'' params)) \<and>
   (\<forall>sys roomId toPersonId toPersonEmail text' markdown html files data.
      send_message_data sys roomId toPersonId toPersonEmail text' markdown html files = Inr
        data \<longrightarrow>
        (roomId = None \<or> roomId = Some [] \<longrightarrow> omitted ''roomId'' data) \<and>
        (toPersonId = None \<or> toPersonId = Some [] \<longrightarrow> omitted ''toPersonId'' data) \<and>
        (toPersonEmail = None \<or> toPersonEmail = Some [] \<longrightarrow> omitted ''toPersonEmail'' data) \<and>
        (text' = None \<or> text' = Some [] \<longrightarrow> omitted ''text'' data) \<and>
        (markdown = None \<or> markdown = Some [] \<longrightarrow> omitted ''markdown'' data) \<and>
        (html = None \<or> html = Some [] \<longrightarrow> omitted ''html'' data) \<and>
        (files = None \<or> files = Some [] \<longrightarrow> omitted ''files'' data)) \<and>
   (\<forall>title teamId classificationId isLocked isPublic description.
      let data = create_space_data title teamId classificationId isLocked isPublic description
        in
        (teamId = None \<or> teamId = Some [] \<longrightarrow> omitted ''teamId'' data) \<and>
        (classificationId = None \<or> classificationId = Some [] \<longrightarrow> omitted ''classificationId'' data) \<and>
        (isLocked = None \<longrightarrow> omitted ''isLocked'' data) \<and>
        (isPublic = None \<longrightarrow> omitted ''isPublic'' data) \<and>
        (description = None \<or> description = Some [] \<longrightarrow> omitted ''description'' data)) \<and>
   (\<forall>roomId personId personEmail isModerator data.
      add_member_to_space_data roomId personId personEmail isModerator = Inr data
        \<longrightarrow>
        (personId = None \<or> personId = Some [] \<longrightarrow> omitted ''personId'' data) \<and>
        (personEmail = None \<or> personEmail = Some [] \<longrightarrow> omitted ''personEmail'' data) \<and>
        (isModerator = None \<longrightarrow> omitted ''isModerator'' data)) \<and>
   (\<forall>sys roomId toPersonId toPersonEmail files w api.
      truthy_str roomId \<or> truthy_str toPersonId \<or> truthy_str toPersonEmail \<longrightarrow>
        send_message_data sys roomId toPersonId toPersonEmail (Some []) (Some []) (Some []) files
          = Inl ''Error: Must specify text, markdown, or html content'' \<and>
        (fst (get_webex_api w) = Inr api \<longrightarrow>
           send_message sys roomId toPersonId toPersonEmail (Some []) (Some []) (Some []) files w
             = (Inr ''Error: Must specify text, markdown, or html content'',
                w\<lparr>webex_api := Some api\<rparr>)))"
  unfolding Let_def omitted_def
  apply (intro conjI allI impI)
  apply (simp_all add: list_meetings_params_def get_meeting_details_params_def
      get_meeting_transcript_params_def list_recordings_params_def update_meeting_data_def
      delete_meeting_params_def list_participants_params_def list_spaces_params_def
      get_messages_params_def create_space_data_def create_meeting_data_keys
      send_message_data_keys add_member_to_space_data_keys in_keys)
  apply (auto simp: send_message_def send_message_data_def truthy_str_def tool_handle
      io_return_def)
  done

text \<open>
  C10 at one call of each tool.
\<close>

theorem unsupplied_arguments_are_omitted_witness:
  "omitted ''max'' (list_meetings_params (Some ''meeting'') None None None None None (Some 0))
   \<and> omitted ''current'' (list_meetings_params (Some ''meeting'') None None None None None (Some 0))
   \<and> omitted ''current'' (get_meeting_details_params None)
   \<and> omitted ''format'' (get_meeting_transcript_params (Some []))
   \<and> omitted ''meetingId'' (list_recordings_params None None None (Some 5))
   \<and> omitted ''title'' (update_meeting_data (Some []) (Some ''Agenda'') None None None None)
   \<and> omitted ''sendEmail'' (delete_meeting_params None)
   \<and> omitted ''joinedAfter'' (list_participants_params (Some ''2024-01-01'') None None)
   \<and> omitted ''type'' (list_spaces_params None None None None)
   \<and> omitted ''before'' (get_messages_params ''room1'' None None None None)
   \<and> omitted ''isLocked'' (create_space_data ''Team'' None None None (Some False) None)
   \<and> create_meeting_data (example_sys (always 200 ''OK'' [])) ''Sync'' None None None None None
         None (Some True) None
       = Inr [(''title'', JStr ''Sync''), (''allowAnyUserToBeCoHost'', JBool True)]
   \<and> omitted ''enabledAutoRecordMeeting''
         [(''title'', JStr ''Sync''), (''allowAnyUserToBeCoHost'', JBool True)]
   \<and> send_message_data (example_sys (always 200 ''OK'' [])) (Some ''room1'') None None
         (Some ''hello'') (Some []) None None
       = Inr [(''roomId'', JStr ''room1''), (''text'', JStr ''hello'')]
   \<and> omitted ''markdown'' [(''roomId'', JStr ''room1''), (''text'', JStr ''hello'')]
   \<and> omitted ''files'' [(''roomId'', JStr ''room1''), (''text'', JStr ''hello'')]
   \<and> add_member_to_space_data ''room1'' None (Some ''a@example.com'') None
       = Inr [(''roomId'', JStr ''room1''), (''personEmail'', JStr ''a@example.com'')]
   \<and> omitted ''personId'' [(''roomId'', JStr ''room1''), (''personEmail'', JStr ''a@example.com'')]
   \<and> omitted ''isModerator'' [(''roomId'', JStr ''room1''), (''personEmail'', JStr ''a@example.com'')]
   \<and> send_message_data (example_sys (always 200 ''OK'' [])) (Some ''room1'') None None
         (Some []) (Some []) (Some []) None
       = Inl ''Error: Must specify text, markdown, or html content''
   \<and> send_message (example_sys (always 200 ''OK'' [])) (Some ''room1'') None None
         (Some []) (Some []) (Some []) None example_world
       = (Inr ''Error: Must specify text, markdown, or html content'',
          example_world\<lparr>webex_api := Some example_api\<rparr>)"
proof -
  have c: "create_meeting_data (example_sys (always 200 ''OK'' [])) ''Sync'' None None None None None
         None (Some True) None
       = Inr [(''title'', JStr ''Sync''), (''allowAnyUserToBeCoHost'', JBool True)]"
    by (simp add: create_meeting_data_def set_if_truthy_str_def set_if_not_None_def)
  have s: "send_message_data (example_sys (always 200 ''OK'' [])) (Some ''room1'') None None
         (Some ''hello'') (Some []) None None
       = Inr [(''roomId'', JStr ''room1''), (''text'', JStr ''hello'')]"
    by (simp add: send_message_data_def set_if_truthy_str_def truthy_str_def)
  have a: "add_member_to_space_data ''room1'' None (Some ''a@example.com'') None
       = Inr [(''roomId'', JStr ''room1''), (''personEmail'', JStr ''a@example.com'')]"
    by (simp add: add_member_to_space_data_def set_if_truthy_str_def set_if_not_None_def
        truthy_str_def)
  have tr: "truthy_str (Some ''room1'')" by (simp add: truthy_str_def)
  note plain =
    unsupplied_arguments_are_omitted
      [THEN conjunct1, rule_format, of "Some ''meeting''" None None None None None "Some 0"]
    unsupplied_arguments_are_omitted [THEN conjunct2, THEN conjunct1, rule_format, of None]
    unsupplied_arguments_are_omitted
      [THEN conjunct2, THEN conjunct2, THEN conjunct1, rule_format, of "Some []"]
    unsupplied_arguments_are_omitted
      [THEN conjunct2, THEN conjunct2, THEN conjunct2, THEN conjunct1, rule_format,
       of None None None "Some 5"]
    unsupplied_arguments_are_omitted
      [THEN conjunct2, THEN conjunct2, THEN conjunct2, THEN conjunct2, THEN conjunct2,
       THEN conjunct1, rule_format, of "Some []" "Some ''Agenda''" None None None None]
    unsupplied_arguments_are_omitted
      [THEN conjunct2, THEN conjunct2, THEN conjunct2, THEN conjunct2, THEN conjunct2,
       THEN conjunct2, THEN conjunct1, rule_format, of None]
    unsupplied_arguments_are_omitted
      [THEN conjunct2, THEN conjunct2, THEN conjunct2, THEN conjunct2, THEN conjunct2,
       THEN conjunct2, THEN conjunct2, THEN conjunct1, rule_format,
       of "Some ''2024-01-01''" None None]
    unsupplied_arguments_are_omitted
      [THEN conjunct2, THEN conjunct2, THEN conjunct2, THEN conjunct2, THEN conjunct2,
       THEN conjunct2, THEN conjunct2, THEN conjunct2, THEN conjunct1, rule_format,
       of None None None None]
    unsupplied_arguments_are_omitted
      [THEN conjunct2, THEN conjunct2, THEN conjunct2, THEN conjunct2, THEN conjunct2,
       THEN conjunct2, THEN conjunct2, THEN conjunct2, THEN conjunct2, THEN conjunct1,
       rule_format, of "''room1''" None None None None]
    unsupplied_arguments_are_omitted
      [THEN conjunct2, THEN conjunct2, THEN conjunct2, THEN conjunct2, THEN conjunct2,
       THEN conjunct2, THEN conjunct2, THEN conjunct2, THEN conjunct2, THEN conjunct2,
       THEN conjunct2, THEN conjunct1, rule_format,
       of "''Team''" None None None "Some False" None]
  note create = unsupplied_arguments_are_omitted
      [THEN conjunct2, THEN conjunct2, THEN conjunct2, THEN conjunct2, THEN conjunct1,
       rule_format, OF c]
  note message = unsupplied_arguments_are_omitted
      [THEN conjunct2, THEN conjunct2, THEN conjunct2, THEN conjunct2, THEN conjunct2,
       THEN conjunct2, THEN conjunct2, THEN conjunct2, THEN conjunct2, THEN conjunct2,
       THEN conjunct1, rule_format, OF s]
  note member = unsupplied_arguments_are_omitted
      [THEN conjunct2, THEN conjunct2, THEN conjunct2, THEN conjunct2, THEN conjunct2,
       THEN conjunct2, THEN conjunct2, THEN conjunct2, THEN conjunct2, THEN conjunct2,
       THEN conjunct2, THEN conjunct2, THEN conjunct1, rule_format, OF a]
  note empty = unsupplied_arguments_are_omitted
      [THEN conjunct2, THEN conjunct2, THEN conjunct2, THEN conjunct2, THEN conjunct2,
       THEN conjunct2, THEN conjunct2, THEN conjunct2, THEN conjunct2, THEN conjunct2,
       THEN conjunct2, THEN conjunct2, THEN conjunct2, rule_format,
       of "Some ''room1''" None None "example_sys (always 200 ''OK'' [])" None
       example_world example_api]
  show ?thesis
    using plain create message member empty c s a tr
    by (simp add: Let_def example_handle)
qed

end
